theory Spec2Isabelle
  imports Complex_Main
begin

section \<open>Correlated colour temperature: the computations of colour/temperature/cct.py\<close>

text \<open>
  Floats are modelled as exact reals; rounding is not modelled anywhere. Every
  \<^verbatim>\<open>raise\<close> of the source, and every Python exception that an operation of the source
  can throw (a division by zero, an index out of range, calling \<^verbatim>\<open>None\<close>, an overflow
  inside \<^verbatim>\<open>math.pow\<close> or \<^verbatim>\<open>math.exp\<close>), is a value \<open>Inl e\<close> of the result type.
  Two places need more than the reals. The closed formulas of McCamy and Hernandez-Andres
  call \<^verbatim>\<open>math.pow\<close> and \<^verbatim>\<open>math.exp\<close>, which raise on overflow, so there a float is a
  \<open>pyfloat\<close>: a real, an infinity or nan. The parabolic solution of Ohno divides
  \<^verbatim>\<open>numpy.float64\<close> values, where a zero divisor gives an infinity or nan and no
  exception, so its results are \<open>np_float64\<close> values. Elsewhere overflow, infinities and nan
  are outside the model.
\<close>

subsection \<open>Python exceptions and partial operations\<close>

datatype error =
    ValueError string
  | TypeError string
  | ZeroDivisionError
  | IndexError
  | UnboundLocalError
  | OverflowError

text \<open>Sequencing of fallible steps: the first exception ends the computation.\<close>

definition bind_res :: "error + 'a \<Rightarrow> ('a \<Rightarrow> error + 'b) \<Rightarrow> error + 'b" where
  "bind_res m f = (case m of Inl e \<Rightarrow> Inl e | Inr x \<Rightarrow> f x)"

text \<open>Float division \<^verbatim>\<open>a / b\<close>: Python raises on a zero divisor.\<close>

definition py_div :: "real \<Rightarrow> real \<Rightarrow> error + real" where
  "py_div a b = (if b = 0 then Inl ZeroDivisionError else Inr (a / b))"

subsection \<open>Python floats with infinities and nan\<close>


definition FLOAT_OVERFLOW :: real where
  "FLOAT_OVERFLOW = 2 ^ 1024 - 2 ^ 970"

datatype pyfloat = Fin real | PInf | NInf | NaN

definition overflow :: "real \<Rightarrow> pyfloat" where
  "overflow x =
     (if FLOAT_OVERFLOW \<le> x then PInf else if x \<le> - FLOAT_OVERFLOW then NInf else Fin x)"

fun fl_neg :: "pyfloat \<Rightarrow> pyfloat" where
  "fl_neg (Fin a) = Fin (- a)"
| "fl_neg PInf = NInf"
| "fl_neg NInf = PInf"
| "fl_neg NaN = NaN"

fun fl_add :: "pyfloat \<Rightarrow> pyfloat \<Rightarrow> pyfloat" where
  "fl_add NaN b = NaN"
| "fl_add a NaN = NaN"
| "fl_add (Fin a) (Fin b) = overflow (a + b)"
| "fl_add PInf NInf = NaN"
| "fl_add NInf PInf = NaN"
| "fl_add PInf b = PInf"
| "fl_add NInf b = NInf"
| "fl_add a PInf = PInf"
| "fl_add a NInf = NInf"

definition fl_sub :: "pyfloat \<Rightarrow> pyfloat \<Rightarrow> pyfloat" where
  "fl_sub a b = fl_add a (fl_neg b)"

text \<open>The infinity with the sign of \<open>s\<close>, and nan for \<open>s = 0\<close>.\<close>

definition signed_inf :: "real \<Rightarrow> pyfloat" where
  "signed_inf s = (if s = 0 then NaN else if 0 < s then PInf else NInf)"

fun fl_mul :: "pyfloat \<Rightarrow> pyfloat \<Rightarrow> pyfloat" where
  "fl_mul NaN b = NaN"
| "fl_mul a NaN = NaN"
| "fl_mul (Fin a) (Fin b) = overflow (a * b)"
| "fl_mul (Fin a) PInf = signed_inf a"
| "fl_mul (Fin a) NInf = signed_inf (- a)"
| "fl_mul PInf (Fin b) = signed_inf b"
| "fl_mul NInf (Fin b) = signed_inf (- b)"
| "fl_mul PInf PInf = PInf"
| "fl_mul NInf NInf = PInf"
| "fl_mul PInf NInf = NInf"
| "fl_mul NInf PInf = NInf"

text \<open>
  \<^verbatim>\<open>a / b\<close> on Python floats: a zero divisor raises, whatever the dividend; an
  overflowing quotient is an infinity.
\<close>

fun py_truediv :: "pyfloat \<Rightarrow> pyfloat \<Rightarrow> error + pyfloat" where
  "py_truediv a (Fin b) =
     (if b = 0 then Inl ZeroDivisionError
      else case a of
             Fin x \<Rightarrow> Inr (overflow (x / b))
           | PInf \<Rightarrow> Inr (signed_inf b)
           | NInf \<Rightarrow> Inr (signed_inf (- b))
           | NaN \<Rightarrow> Inr NaN)"
| "py_truediv (Fin x) PInf = Inr (Fin 0)"
| "py_truediv (Fin x) NInf = Inr (Fin 0)"
| "py_truediv a b = Inr NaN"

text \<open>
  \<^verbatim>\<open>math.pow(x, k)\<close> for a positive whole \<open>k\<close>: it raises \<open>OverflowError\<close> when a
  finite \<open>x\<close> has a power outside the doubles, and passes infinities and nan on.
\<close>

fun math_pow :: "pyfloat \<Rightarrow> nat \<Rightarrow> error + pyfloat" where
  "math_pow (Fin x) k =
     (if FLOAT_OVERFLOW \<le> \<bar>x ^ k\<bar> then Inl OverflowError else Inr (Fin (x ^ k)))"
| "math_pow PInf k = Inr PInf"
| "math_pow NInf k = Inr (if even k then PInf else NInf)"
| "math_pow NaN k = Inr NaN"

text \<open>\<^verbatim>\<open>math.exp(x)\<close>: it raises \<open>OverflowError\<close> when a finite \<open>x\<close> is too large.\<close>

fun math_exp :: "pyfloat \<Rightarrow> error + pyfloat" where
  "math_exp (Fin x) = (if FLOAT_OVERFLOW \<le> exp x then Inl OverflowError else Inr (Fin (exp x)))"
| "math_exp PInf = Inr PInf"
| "math_exp NInf = Inr (Fin 0)"
| "math_exp NaN = Inr NaN"

text \<open>\<^verbatim>\<open>x > c\<close>: false for nan.\<close>

fun fl_gt :: "pyfloat \<Rightarrow> real \<Rightarrow> bool" where
  "fl_gt (Fin x) c = (x > c)"
| "fl_gt PInf c = True"
| "fl_gt NInf c = False"
| "fl_gt NaN c = False"

subsection \<open>Kang et al. (2002): CCT to xy (source lines 737-795)\<close>

text \<open>
  Names for the inline polynomials of lines 766-769, 771-774, 780-783, 785-788 and
  790-793. In the branches that use them \<open>CCT\<close> is at least 1667, so the divisions
  by powers of \<open>CCT\<close> cannot raise.
\<close>

definition kang_x_low :: "real \<Rightarrow> real" where
  "kang_x_low CCT =
     - 0.2661239 * 10 ^ 9 / CCT ^ 3 - 0.2343589 * 10 ^ 6 / CCT ^ 2
       + 0.8776956 * 10 ^ 3 / CCT + 0.179910"

definition kang_x_high :: "real \<Rightarrow> real" where
  "kang_x_high CCT =
     - 3.0258469 * 10 ^ 9 / CCT ^ 3 + 2.1070379 * 10 ^ 6 / CCT ^ 2
       + 0.2226347 * 10 ^ 3 / CCT + 0.24039"

definition kang_y_first :: "real \<Rightarrow> real" where
  "kang_y_first x = - 1.1063814 * x ^ 3 - 1.34811020 * x ^ 2 + 2.18555832 * x - 0.20219683"

definition kang_y_second :: "real \<Rightarrow> real" where
  "kang_y_second x = - 0.9549476 * x ^ 3 - 1.37418593 * x ^ 2 + 2.09137015 * x - 0.16748867"

definition kang_y_third :: "real \<Rightarrow> real" where
  "kang_y_third x = 3.0817580 * x ^ 3 - 5.8733867 * x ^ 2 + 3.75112997 * x - 0.37001483"

definition kang_domain_message :: string where
  "kang_domain_message = ''Correlated colour temperature must be in domain [1667, 25000]!''"

definition CCT_to_xy_kang2002 :: "real \<Rightarrow> error + (real \<times> real)" where
  "CCT_to_xy_kang2002 CCT =
     bind_res
       (if 1667 \<le> CCT \<and> CCT \<le> 4000 then Inr (kang_x_low CCT)
        else if 4000 \<le> CCT \<and> CCT \<le> 25000 then Inr (kang_x_high CCT)
        else Inl (ValueError kang_domain_message))
       (\<lambda>x.
          bind_res
            (if 1667 \<le> CCT \<and> CCT \<le> 2222 then Inr (kang_y_first x)
             else if 2222 \<le> CCT \<and> CCT \<le> 4000 then Inr (kang_y_second x)
             else if 4000 \<le> CCT \<and> CCT \<le> 25000 then Inr (kang_y_third x)
             else Inl UnboundLocalError)
            (\<lambda>y. Inr (x, y)))"

subsection \<open>McCamy (1992): xy to CCT (source lines 656-688)\<close>

definition xy_to_CCT_mccamy1992 :: "real \<times> real \<Rightarrow> error + pyfloat" where
  "xy_to_CCT_mccamy1992 xy =
     (case xy of (x, y) \<Rightarrow>
        bind_res (py_truediv (fl_sub (Fin x) (Fin 0.3320)) (fl_sub (Fin y) (Fin 0.1858)))
          (\<lambda>n. bind_res (math_pow n 3)
             (\<lambda>p3. bind_res (math_pow n 2)
                (\<lambda>p2. Inr (fl_add
                            (fl_sub (fl_add (fl_mul (Fin (- 449)) p3) (fl_mul (Fin 3525) p2))
                               (fl_mul (Fin 6823.3) n))
                            (Fin 5520.33))))))"

subsection \<open>Hernandez-Andres, Lee and Romero (1999): xy to CCT (source lines 691-734)\<close>

text \<open>A term \<^verbatim>\<open>c * math.exp(-n / d)\<close> of the two sums.\<close>

definition hernandez_term :: "real \<Rightarrow> pyfloat \<Rightarrow> real \<Rightarrow> error + pyfloat" where
  "hernandez_term c n d =
     bind_res (py_truediv (fl_neg n) (Fin d))
       (\<lambda>q. bind_res (math_exp q) (\<lambda>e. Inr (fl_mul (Fin c) e)))"

definition xy_to_CCT_hernandez1999 :: "real \<times> real \<Rightarrow> error + pyfloat" where
  "xy_to_CCT_hernandez1999 xy =
     (case xy of (x, y) \<Rightarrow>
        bind_res (py_truediv (fl_sub (Fin x) (Fin 0.3366)) (fl_sub (Fin y) (Fin 0.1735)))
          (\<lambda>n. bind_res (hernandez_term 6253.80338 n 0.92159)
             (\<lambda>t1. bind_res (hernandez_term 28.70599 n 0.20039)
                (\<lambda>t2. bind_res (hernandez_term 0.00004 n 0.07125)
                   (\<lambda>t3.
                      let CCT = fl_add (fl_add (fl_add (Fin (- 949.86315)) t1) t2) t3
                      in if fl_gt CCT 50000
                         then bind_res
                                (py_truediv (fl_sub (Fin x) (Fin 0.3356))
                                   (fl_sub (Fin y) (Fin 0.1691)))
                                (\<lambda>n. bind_res (hernandez_term 0.00228 n 0.07861)
                                   (\<lambda>s1. bind_res (hernandez_term (5.4535 / 10 ^ 36) n 0.01543)
                                      (\<lambda>s2. Inr (fl_add (fl_add (Fin 36284.48953) s1) s2))))
                         else Inr CCT)))))"

subsection \<open>CIE Illuminant D Series: CCT to xy (source lines 798-840)\<close>

definition illuminant_D_domain_message :: string where
  "illuminant_D_domain_message = ''Correlated colour temperature must be in domain [4000, 25000]!''"

definition CCT_to_xy_illuminant_D :: "real \<Rightarrow> error + (real \<times> real)" where
  "CCT_to_xy_illuminant_D CCT =
     bind_res
       (if 4000 \<le> CCT \<and> CCT \<le> 7000
        then Inr (- 4.607 * 10 ^ 9 / CCT ^ 3 + 2.9678 * 10 ^ 6 / CCT ^ 2
                    + 0.09911 * 10 ^ 3 / CCT + 0.244063)
        else if 7000 < CCT \<and> CCT \<le> 25000
        then Inr (- 2.0064 * 10 ^ 9 / CCT ^ 3 + 1.9018 * 10 ^ 6 / CCT ^ 2
                    + 0.24748 * 10 ^ 3 / CCT + 0.23704)
        else Inl (ValueError illuminant_D_domain_message))
       (\<lambda>x. Inr (x, - 3 * x ^ 2 + 2.87 * x - 0.275))"

subsection \<open>Observers and the planckian table (source lines 87-93, 158-237)\<close>

text \<open>
  The colorimetric primitives (blackbody spectral distribution, integration to XYZ,
  conversion to UCS and uv) are not part of the module. An observer is modelled by its
  \<^verbatim>\<open>name\<close> attribute and by the chromaticity that lines 203-207 compute from it for
  a blackbody temperature; that function is a parameter of everything below, and an
  exception raised inside those primitives is outside this model.
\<close>

record cmfs =
  cmfs_name :: string
  cmfs_planckian_uv :: "real \<Rightarrow> real \<times> real"

record PLANCKIAN_TABLE_TUVD =
  Ti :: real
  ui :: real
  vi :: real
  di :: real

definition CCT_MINIMAL :: real where "CCT_MINIMAL = 1000"
definition CCT_MAXIMAL :: real where "CCT_MAXIMAL = 100000"
definition CCT_SAMPLES :: nat where "CCT_SAMPLES = 10"
definition CCT_CALCULATION_ITERATIONS :: int where "CCT_CALCULATION_ITERATIONS = 6"

text \<open>
  \<^verbatim>\<open>np.linspace(start, end, count)\<close>: \<open>count\<close> evenly spaced samples, both ends
  included; a single sample is \<open>start\<close>. The count is a natural number here.
\<close>

definition linspace :: "real \<Rightarrow> real \<Rightarrow> nat \<Rightarrow> real list" where
  "linspace start end' count =
     (if count = 1 then [start]
      else map (\<lambda>k. start + real k * ((end' - start) / real (count - 1))) [0..<count])"

definition get_planckian_table ::
  "real \<times> real \<Rightarrow> cmfs \<Rightarrow> real \<Rightarrow> real \<Rightarrow> nat \<Rightarrow> PLANCKIAN_TABLE_TUVD list" where
  "get_planckian_table uv cmfs start end' count =
     (case uv of (ux, vx) \<Rightarrow>
        map (\<lambda>T. case cmfs_planckian_uv cmfs T of (u, v) \<Rightarrow>
                   \<lparr>Ti = T, ui = u, vi = v, di = sqrt ((ux - u) ^ 2 + (vx - v) ^ 2)\<rparr>)
            (linspace start end' count))"

text \<open>Python's \<^verbatim>\<open>min\<close> of a list keeps the first smallest item and raises on an empty list.\<close>

fun py_min :: "real list \<Rightarrow> error + real" where
  "py_min [] = Inl (ValueError ''min() arg is an empty sequence'')"
| "py_min (x # xs) = Inr (fold (\<lambda>y m. if y < m then y else m) xs x)"

text \<open>\<^verbatim>\<open>list.index(x)\<close>: the position of the first item equal to \<open>x\<close>.\<close>

fun py_list_index :: "real list \<Rightarrow> real \<Rightarrow> error + nat" where
  "py_list_index [] x = Inl (ValueError ''x is not in list'')"
| "py_list_index (y # ys) x =
     (if y = x then Inr 0 else bind_res (py_list_index ys x) (\<lambda>i. Inr (Suc i)))"

definition get_planckian_table_minimal_distance_index ::
  "PLANCKIAN_TABLE_TUVD list \<Rightarrow> error + nat" where
  "get_planckian_table_minimal_distance_index planckian_table =
     (let distances = map di planckian_table
      in bind_res (py_min distances) (py_list_index distances))"

subsection \<open>Ohno (2013): uv to CCT (source lines 240-340)\<close>

text \<open>Python list subscription: a negative index counts from the end of the list.\<close>

definition py_getitem :: "'a list \<Rightarrow> int \<Rightarrow> error + 'a" where
  "py_getitem xs i =
     (if 0 \<le> i \<and> i < int (length xs) then Inr (xs ! nat i)
      else if - int (length xs) \<le> i \<and> i < 0 then Inr (xs ! nat (int (length xs) + i))
      else Inl IndexError)"

definition warning_lowest :: string where
  "warning_lowest =
     ''Minimal distance index is on lowest planckian table bound, unpredictable results may occur!''"

definition warning_highest :: string where
  "warning_highest =
     ''Minimal distance index is on highest planckian table bound, unpredictable results may occur!''"

text \<open>Lines 297-304: the boundary policy, with the warnings emitted so far.\<close>

definition ohno_adjust_index :: "nat \<Rightarrow> int \<Rightarrow> string list \<Rightarrow> int \<times> string list" where
  "ohno_adjust_index len index ws =
     (if index = 0 then (index + 1, ws @ [warning_lowest])
      else if index = int len - 1 then (index - 1, ws @ [warning_highest])
      else (index, ws))"

text \<open>
  Lines 295-307: one pass of the cascade. It returns the narrowed interval, the table
  and the adjusted index that the code keeps in its local variables, and the warnings.
\<close>

definition ohno_iteration ::
  "real \<times> real \<Rightarrow> cmfs \<Rightarrow> real \<Rightarrow> real \<Rightarrow> nat \<Rightarrow> string list \<Rightarrow>
   error + (real \<times> real \<times> PLANCKIAN_TABLE_TUVD list \<times> int \<times> string list)" where
  "ohno_iteration uv cmfs start end' count ws =
     (let planckian_table = get_planckian_table uv cmfs start end' count
      in bind_res (get_planckian_table_minimal_distance_index planckian_table)
           (\<lambda>m. case ohno_adjust_index (length planckian_table) (int m) ws of
                   (index, ws') \<Rightarrow>
                     bind_res (py_getitem planckian_table (index - 1))
                       (\<lambda>p. bind_res (py_getitem planckian_table (index + 1))
                          (\<lambda>n. Inr (Ti p, Ti n, planckian_table, index, ws')))))"

text \<open>Line 294: the loop, by the number of passes still to run.\<close>

fun ohno_cascade ::
  "real \<times> real \<Rightarrow> cmfs \<Rightarrow> nat \<Rightarrow> nat \<Rightarrow>
   real \<times> real \<times> PLANCKIAN_TABLE_TUVD list \<times> int \<times> string list \<Rightarrow>
   error + (real \<times> real \<times> PLANCKIAN_TABLE_TUVD list \<times> int \<times> string list)" where
  "ohno_cascade uv cmfs count 0 st = Inr st"
| "ohno_cascade uv cmfs count (Suc k) st =
     (case st of (start, end', planckian_table, index, ws) \<Rightarrow>
        bind_res (ohno_iteration uv cmfs start end' count ws)
          (ohno_cascade uv cmfs count k))"

text \<open>Lines 311-313: the three entries around the index.\<close>

definition ohno_triple ::
  "PLANCKIAN_TABLE_TUVD list \<Rightarrow> int \<Rightarrow>
   error + (PLANCKIAN_TABLE_TUVD \<times> PLANCKIAN_TABLE_TUVD \<times> PLANCKIAN_TABLE_TUVD)" where
  "ohno_triple planckian_table index =
     bind_res (py_getitem planckian_table (index - 1))
       (\<lambda>Tuvdip. bind_res (py_getitem planckian_table index)
          (\<lambda>Tuvdi. bind_res (py_getitem planckian_table (index + 1))
             (\<lambda>Tuvdin. Inr (Tuvdip, Tuvdi, Tuvdin))))"

text \<open>
  \<^verbatim>\<open>z ** (1. / 2.)\<close> on a float: the square root. For a negative \<open>z\<close> Python 2, which
  the module is written for, raises \<open>ValueError\<close>.
\<close>

definition py_pow_half :: "real \<Rightarrow> error + real" where
  "py_pow_half z =
     (if z < 0 then Inl (ValueError ''negative number cannot be raised to a fractional power'')
      else Inr (sqrt z))"

text \<open>Lines 318-325: the triangular solution; it returns \<open>(T, Duv, sign)\<close>.\<close>

definition ohno_triangular ::
  "PLANCKIAN_TABLE_TUVD \<Rightarrow> PLANCKIAN_TABLE_TUVD \<Rightarrow> real \<times> real \<Rightarrow>
   error + (real \<times> real \<times> real)" where
  "ohno_triangular Tuvdip Tuvdin uv =
     (case uv of (ux, vx) \<Rightarrow>
        let Tip = Ti Tuvdip; uip = ui Tuvdip; vip = vi Tuvdip; dip = di Tuvdip;
            Tin = Ti Tuvdin; uin = ui Tuvdin; vin = vi Tuvdin; din = di Tuvdin;
            l = sqrt ((uin - uip) ^ 2 + (vin - vip) ^ 2)
        in bind_res (py_div (dip ^ 2 - din ^ 2 + l ^ 2) (2 * l))
             (\<lambda>x. bind_res (py_div x l)
                (\<lambda>xl. let T = Tip + (Tin - Tip) * xl;
                           vtx = vip + (vin - vip) * xl;
                           sign = (if vx - vtx \<ge> 0 then 1 else - 1)
                       in bind_res (py_pow_half (dip ^ 2 - x ^ 2))
                            (\<lambda>h. Inr (T, h * sign, sign)))))"

text \<open>
  The temperatures of the table come from \<^verbatim>\<open>np.linspace\<close>, so the parabolic solution
  computes with \<^verbatim>\<open>numpy.float64\<close> values: \<^verbatim>\<open>X ** -1\<close> for a zero \<open>X\<close> and a division
  by zero give an infinity or nan with a warning, and raise nothing. A value of that
  type is a real or \<open>NonFinite\<close>, which stands for \<^verbatim>\<open>inf\<close>, \<^verbatim>\<open>-inf\<close> and \<^verbatim>\<open>nan\<close>
  without telling them apart.
\<close>

datatype np_float64 = Finite real | NonFinite

definition np_div :: "real \<Rightarrow> real \<Rightarrow> np_float64" where
  "np_div a b = (if b = 0 then NonFinite else Finite (a / b))"

text \<open>
  Lines 329-338: the parabolic solution. When \<open>X\<close> is zero, \<^verbatim>\<open>X ** -1\<close> is an infinity,
  the products \<open>a\<close>, \<open>b\<close>, \<open>c\<close> are infinities or nan, and \<open>T\<close> and \<open>Duv\<close> are nan. When
  \<open>a\<close> is zero, \<open>T\<close> is an infinity or nan, and \<open>Duv\<close>, which multiplies \<open>a\<close> by the
  square of \<open>T\<close>, is nan.
\<close>

definition ohno_parabolic ::
  "PLANCKIAN_TABLE_TUVD \<Rightarrow> PLANCKIAN_TABLE_TUVD \<Rightarrow> PLANCKIAN_TABLE_TUVD \<Rightarrow> real \<Rightarrow>
   np_float64 \<times> np_float64" where
  "ohno_parabolic Tuvdip Tuvdi Tuvdin sign =
     (let Tip = Ti Tuvdip; dip = di Tuvdip;
          Tic = Ti Tuvdi; dic = di Tuvdi;
          Tin = Ti Tuvdin; din = di Tuvdin;
          X = (Tin - Tic) * (Tip - Tin) * (Tic - Tip)
      in case np_div 1 X of
           NonFinite \<Rightarrow> (NonFinite, NonFinite)
         | Finite Xinv \<Rightarrow>
             let a = (Tip * (din - dic) + Tic * (dip - din) + Tin * (dic - dip)) * Xinv;
                 b = - (Tip ^ 2 * (din - dic) + Tic ^ 2 * (dip - din) + Tin ^ 2 * (dic - dip))
                       * Xinv;
                 c = - (dip * (Tin - Tic) * Tic * Tin + dic * (Tip - Tin) * Tip * Tin
                        + din * (Tic - Tip) * Tip * Tic) * Xinv
             in case np_div (- b) (2 * a) of
                  NonFinite \<Rightarrow> (NonFinite, NonFinite)
                | Finite T \<Rightarrow> (Finite T, Finite (sign * (a * T ^ 2 + b * T + c))))"

text \<open>Lines 318-340: the parabolic solution replaces the triangular one under the test of line 328.\<close>

definition ohno_solution ::
  "PLANCKIAN_TABLE_TUVD \<Rightarrow> PLANCKIAN_TABLE_TUVD \<Rightarrow> PLANCKIAN_TABLE_TUVD \<Rightarrow> real \<times> real \<Rightarrow>
   error + (np_float64 \<times> np_float64)" where
  "ohno_solution Tuvdip Tuvdi Tuvdin uv =
     bind_res (ohno_triangular Tuvdip Tuvdin uv)
       (\<lambda>(T, Duv, sign).
          if Duv < 0.002 then Inr (ohno_parabolic Tuvdip Tuvdi Tuvdin sign)
          else Inr (Finite T, Finite Duv))"

text \<open>
  The whole function, with the warnings it emitted. Before the first pass the table and
  the index are unbound; line 290 makes sure one pass runs.
\<close>

definition ohno_run ::
  "real \<times> real \<Rightarrow> cmfs \<Rightarrow> real \<Rightarrow> real \<Rightarrow> nat \<Rightarrow> int \<Rightarrow>
   error + ((np_float64 \<times> np_float64) \<times> string list)" where
  "ohno_run uv cmfs start end' count iterations =
     (let iterations = (if iterations \<le> 0 then 1 else iterations)
      in bind_res (ohno_cascade uv cmfs count (nat iterations) (start, end', [], 0, []))
           (\<lambda>(start, end', planckian_table, index, ws).
              bind_res (ohno_triple planckian_table index)
                (\<lambda>(Tuvdip, Tuvdi, Tuvdin).
                   bind_res (ohno_solution Tuvdip Tuvdi Tuvdin uv)
                     (\<lambda>r. Inr (r, ws)))))"

definition uv_to_CCT_ohno2013 ::
  "real \<times> real \<Rightarrow> cmfs \<Rightarrow> real \<Rightarrow> real \<Rightarrow> nat \<Rightarrow> int \<Rightarrow>
   error + (np_float64 \<times> np_float64)" where
  "uv_to_CCT_ohno2013 uv cmfs start end' count iterations =
     bind_res (ohno_run uv cmfs start end' count iterations) (\<lambda>(r, ws). Inr r)"

subsection \<open>Ohno (2013): CCT to uv (source lines 343-401)\<close>

text \<open>
  The division is written as one of Python floats, which raises on a zero divisor; the
  type of \<open>du\<close> and \<open>dv\<close> is that of the colorimetric primitives' results.
\<close>

definition CCT_to_uv_ohno2013 :: "real \<Rightarrow> real \<Rightarrow> cmfs \<Rightarrow> error + (real \<times> real)" where
  "CCT_to_uv_ohno2013 CCT Duv cmfs =
     (let delta = 0.01 in
      case cmfs_planckian_uv cmfs CCT of (u0, v0) \<Rightarrow>
        if Duv = 0 then Inr (u0, v0)
        else case cmfs_planckian_uv cmfs (CCT + delta) of (u1, v1) \<Rightarrow>
          let du = u0 - u1; dv = v0 - v1
          in bind_res (py_div dv (sqrt (du ^ 2 + dv ^ 2)))
               (\<lambda>a. bind_res (py_div du (sqrt (du ^ 2 + dv ^ 2)))
                  (\<lambda>b. Inr (u0 - Duv * a, v0 + Duv * b))))"

subsection \<open>Robertson (1968): the isotemperature lines (source lines 95-155)\<close>

definition ROBERTSON_ISOTEMPERATURE_LINES_DATA :: "(real \<times> real \<times> real \<times> real) list" where
  "ROBERTSON_ISOTEMPERATURE_LINES_DATA =
     [(0, 0.18006, 0.26352, - 0.24341),
      (10, 0.18066, 0.26589, - 0.25479),
      (20, 0.18133, 0.26846, - 0.26876),
      (30, 0.18208, 0.27119, - 0.28539),
      (40, 0.18293, 0.27407, - 0.30470),
      (50, 0.18388, 0.27709, - 0.32675),
      (60, 0.18494, 0.28021, - 0.35156),
      (70, 0.18611, 0.28342, - 0.37915),
      (80, 0.18740, 0.28668, - 0.40955),
      (90, 0.18880, 0.28997, - 0.44278),
      (100, 0.19032, 0.29326, - 0.47888),
      (125, 0.19462, 0.30141, - 0.58204),
      (150, 0.19962, 0.30921, - 0.70471),
      (175, 0.20525, 0.31647, - 0.84901),
      (200, 0.21142, 0.32312, - 1.0182),
      (225, 0.21807, 0.32909, - 1.2168),
      (250, 0.22511, 0.33439, - 1.4512),
      (275, 0.23247, 0.33904, - 1.7298),
      (300, 0.24010, 0.34308, - 2.0637),
      (325, 0.24792, 0.34655, - 2.4681),
      (350, 0.25591, 0.34951, - 2.9641),
      (375, 0.26400, 0.35200, - 3.5814),
      (400, 0.27218, 0.35407, - 4.3633),
      (425, 0.28039, 0.35577, - 5.3762),
      (450, 0.28863, 0.35714, - 6.7262),
      (475, 0.29685, 0.35823, - 8.5955),
      (500, 0.30505, 0.35907, - 11.324),
      (525, 0.31320, 0.35968, - 15.628),
      (550, 0.32129, 0.36011, - 23.325),
      (575, 0.32931, 0.36038, - 40.770),
      (600, 0.33724, 0.36051, - 116.45)]"

text \<open>
  The named tuple \<^verbatim>\<open>(r, u, v, t)\<close>: reciprocal megakelvin, the point of the locus and
  the slope of the line. The fields carry a prefix, as single letters are variables here.
\<close>

record ROBERTSON_ISOTEMPERATURE_LINES_RUVT =
  wr_r :: real
  wr_u :: real
  wr_v :: real
  wr_t :: real

definition ROBERTSON_ISOTEMPERATURE_LINES :: "ROBERTSON_ISOTEMPERATURE_LINES_RUVT list" where
  "ROBERTSON_ISOTEMPERATURE_LINES =
     map (\<lambda>(r, u, v, t). \<lparr>wr_r = r, wr_u = u, wr_v = v, wr_t = t\<rparr>)
       ROBERTSON_ISOTEMPERATURE_LINES_DATA"

subsection \<open>Robertson (1968): uv to CCT (source lines 404-491)\<close>

text \<open>
  Lines 446-452: the unit vector along line \<open>i\<close>. Its length \<open>sqrt (1 + dv * dv)\<close> is at
  least one, so these two divisions cannot raise. The loop only reads the indices 0 to
  30 of the table of 31 lines.
\<close>

definition robertson_direction :: "nat \<Rightarrow> real \<times> real" where
  "robertson_direction i =
     (let du = 1; dv = wr_t (ROBERTSON_ISOTEMPERATURE_LINES ! i); len = sqrt (1 + dv * dv)
      in (du / len, dv / len))"

text \<open>Lines 454-457: the signed distance of the point from line \<open>i\<close>.\<close>

definition robertson_dt :: "real \<times> real \<Rightarrow> nat \<Rightarrow> real" where
  "robertson_dt uv i =
     (case uv of (u, v) \<Rightarrow>
        case robertson_direction i of (du, dv) \<Rightarrow>
          let uu = u - wr_u (ROBERTSON_ISOTEMPERATURE_LINES ! i);
              vv = v - wr_v (ROBERTSON_ISOTEMPERATURE_LINES ! i)
          in - uu * dv + vv * du)"

text \<open>Lines 460-468: the distance used at the break, and the interpolation fraction.\<close>

definition robertson_break_dt :: "real \<Rightarrow> real" where
  "robertson_break_dt dt = - (if dt > 0 then 0 else dt)"

definition robertson_fraction :: "nat \<Rightarrow> real \<Rightarrow> real \<Rightarrow> error + real" where
  "robertson_fraction i dt last_dt =
     (if i = 1 then Inr 0
      else py_div (robertson_break_dt dt) (last_dt + robertson_break_dt dt))"

text \<open>Line 470: the blended reciprocal temperature.\<close>

definition robertson_blend_r :: "nat \<Rightarrow> real \<Rightarrow> real" where
  "robertson_blend_r i f =
     wr_r (ROBERTSON_ISOTEMPERATURE_LINES ! (i - 1)) * f
       + wr_r (ROBERTSON_ISOTEMPERATURE_LINES ! i) * (1 - f)"

text \<open>Lines 470-483: the temperature and the projection at the break; it returns \<open>(T, Duv)\<close>.\<close>

definition robertson_interpolate ::
  "real \<times> real \<Rightarrow> nat \<Rightarrow> real \<times> real \<Rightarrow> real \<times> real \<Rightarrow> real \<Rightarrow> error + (real \<times> real)" where
  "robertson_interpolate uv i d last_d f =
     (case uv of (u, v) \<Rightarrow> case d of (du, dv) \<Rightarrow> case last_d of (last_du, last_dv) \<Rightarrow>
        let wr_ruvt = ROBERTSON_ISOTEMPERATURE_LINES ! i;
            wr_ruvt_previous = ROBERTSON_ISOTEMPERATURE_LINES ! (i - 1)
        in bind_res (py_div 1000000 (robertson_blend_r i f))
             (\<lambda>T. let uu = u - (wr_u wr_ruvt_previous * f + wr_u wr_ruvt * (1 - f));
                      vv = v - (wr_v wr_ruvt_previous * f + wr_v wr_ruvt * (1 - f));
                      du = du * (1 - f) + last_du * f;
                      dv = dv * (1 - f) + last_dv * f;
                      len = sqrt (du * du + dv * dv)
                  in bind_res (py_div du len)
                       (\<lambda>du. bind_res (py_div dv len)
                          (\<lambda>dv. Inr (T, uu * du + vv * dv)))))"

text \<open>
  Lines 442-489: the walk over the indices still to visit, with the values kept from
  the line before. A loop that ended without its break would leave \<open>T\<close> unbound.
\<close>

fun robertson_walk ::
  "real \<times> real \<Rightarrow> nat list \<Rightarrow> real \<times> real \<times> real \<Rightarrow> error + (real \<times> real)" where
  "robertson_walk uv [] kept = Inl UnboundLocalError"
| "robertson_walk uv (i # rest) kept =
     (case kept of (last_dt, last_du, last_dv) \<Rightarrow>
        case robertson_direction i of (du, dv) \<Rightarrow>
          let dt = robertson_dt uv i
          in if dt \<le> 0 \<or> i = 30
             then bind_res (robertson_fraction i dt last_dt)
                    (robertson_interpolate uv i (du, dv) (last_du, last_dv))
             else robertson_walk uv rest (dt, du, dv))"

definition uv_to_CCT_robertson1968 :: "real \<times> real \<Rightarrow> error + (real \<times> real)" where
  "uv_to_CCT_robertson1968 uv =
     bind_res (robertson_walk uv [1..<31] (0, 0, 0)) (\<lambda>(T, Duv). Inr (T, - Duv))"

subsection \<open>Robertson (1968): CCT to uv (source lines 494-563)\<close>

text \<open>
  Lines 536-563: the body of the branch taken at index \<open>i\<close>. The table's reciprocal
  temperatures differ, and the two lengths are at least one, so only the division by
  \<open>len3\<close> is written as fallible.
\<close>

definition robertson_offset :: "real \<Rightarrow> real \<Rightarrow> nat \<Rightarrow> error + (real \<times> real)" where
  "robertson_offset r Duv i =
     (let wr_ruvt = ROBERTSON_ISOTEMPERATURE_LINES ! i;
          wr_ruvt_next = ROBERTSON_ISOTEMPERATURE_LINES ! (i + 1);
          f = (wr_r wr_ruvt_next - r) / (wr_r wr_ruvt_next - wr_r wr_ruvt);
          u = wr_u wr_ruvt * f + wr_u wr_ruvt_next * (1 - f);
          v = wr_v wr_ruvt * f + wr_v wr_ruvt_next * (1 - f);
          vv1 = wr_t wr_ruvt; vv2 = wr_t wr_ruvt_next;
          len1 = sqrt (1 + vv1 * vv1); len2 = sqrt (1 + vv2 * vv2);
          uu1 = 1 / len1; vv1 = vv1 / len1;
          uu2 = 1 / len2; vv2 = vv2 / len2;
          uu3 = uu1 * f + uu2 * (1 - f);
          vv3 = vv1 * f + vv2 * (1 - f);
          len3 = sqrt (uu3 * uu3 + vv3 * vv3)
      in bind_res (py_div uu3 len3)
           (\<lambda>uu3. bind_res (py_div vv3 len3)
              (\<lambda>vv3. Inr (u + uu3 * - Duv, v + vv3 * - Duv))))"

text \<open>
  Lines 531-563: the scan. A loop that ended without returning would return \<^verbatim>\<open>None\<close>,
  written here as a \<open>TypeError\<close> of the caller that unpacks the pair.
\<close>

fun robertson_scan :: "real \<Rightarrow> real \<Rightarrow> nat list \<Rightarrow> error + (real \<times> real)" where
  "robertson_scan r Duv [] = Inl (TypeError '''NoneType' object is not iterable'')"
| "robertson_scan r Duv (i # rest) =
     (if r < wr_r (ROBERTSON_ISOTEMPERATURE_LINES ! (i + 1)) \<or> i = 29
      then robertson_offset r Duv i
      else robertson_scan r Duv rest)"

definition CCT_to_uv_robertson1968 :: "real \<Rightarrow> real \<Rightarrow> error + (real \<times> real)" where
  "CCT_to_uv_robertson1968 CCT Duv =
     bind_res (py_div 1000000 CCT) (\<lambda>r. robertson_scan r Duv [0..<30])"

subsection \<open>Dispatch by method name (source lines 566-653, 843-901)\<close>

text \<open>
  The keyword arguments a caller can pass on: the parameters of the Ohno functions.
  A call without keywords is \<open>no_kwargs\<close>.
\<close>

record kwargs =
  kw_cmfs :: "cmfs option"
  kw_start :: "real option"
  kw_end :: "real option"
  kw_count :: "nat option"
  kw_iterations :: "int option"

definition no_kwargs :: kwargs where
  "no_kwargs = \<lparr>kw_cmfs = None, kw_start = None, kw_end = None, kw_count = None,
                 kw_iterations = None\<rparr>"

definition OBSERVER_NAME :: string where
  "OBSERVER_NAME = ''CIE 1931 2 Degree Standard Observer''"

definition robertson_observer_message :: string where
  "robertson_observer_message =
     '''Robertson (1968)' method is only valid for 'CIE 1931 2 Degree Standard Observer'!''"

definition not_callable :: error where
  "not_callable = TypeError '''NoneType' object is not callable''"

definition unexpected_keyword :: error where
  "unexpected_keyword = TypeError ''got an unexpected keyword argument''"

text \<open>
  \<^verbatim>\<open>registry.get(method)(args)\<close>: \<^verbatim>\<open>get\<close> answers \<^verbatim>\<open>None\<close> for a missing key, and
  calling \<^verbatim>\<open>None\<close> raises.
\<close>

definition call_method :: "(string \<rightharpoonup> ('a \<Rightarrow> error + 'b)) \<Rightarrow> string \<Rightarrow> 'a \<Rightarrow> error + 'b" where
  "call_method registry method args =
     (case registry method of None \<Rightarrow> Inl not_callable | Some f \<Rightarrow> f args)"

text \<open>
  The registries hold the functions; an entry takes the positional arguments and the
  keywords of the call. \<open>standard\<close> is the observer that the default argument of the
  Ohno functions was bound to when the module was loaded.
\<close>

definition UV_TO_CCT_METHODS ::
  "cmfs \<Rightarrow> string \<rightharpoonup> (((real \<times> real) \<times> kwargs) \<Rightarrow> error + (np_float64 \<times> np_float64))"
  where
  "UV_TO_CCT_METHODS standard =
     [''Ohno 2013'' \<mapsto>
        (\<lambda>(uv, kw). uv_to_CCT_ohno2013 uv
           (case kw_cmfs kw of None \<Rightarrow> standard | Some c \<Rightarrow> c)
           (case kw_start kw of None \<Rightarrow> CCT_MINIMAL | Some x \<Rightarrow> x)
           (case kw_end kw of None \<Rightarrow> CCT_MAXIMAL | Some x \<Rightarrow> x)
           (case kw_count kw of None \<Rightarrow> CCT_SAMPLES | Some x \<Rightarrow> x)
           (case kw_iterations kw of None \<Rightarrow> CCT_CALCULATION_ITERATIONS | Some x \<Rightarrow> x)),
      ''Robertson 1968'' \<mapsto>
        (\<lambda>(uv, kw). if kw = no_kwargs
                     then bind_res (uv_to_CCT_robertson1968 uv)
                            (\<lambda>(T, Duv). Inr (Finite T, Finite Duv))
                     else Inl unexpected_keyword)]"

text \<open>Lines 601-605 and 647-651: the observer check of the Robertson branch.\<close>

definition robertson_observer_check :: "kwargs \<Rightarrow> error + unit" where
  "robertson_observer_check kw =
     (case kw_cmfs kw of
        None \<Rightarrow> Inr ()
      | Some c \<Rightarrow> if cmfs_name c \<noteq> OBSERVER_NAME
                  then Inl (ValueError robertson_observer_message) else Inr ())"

definition uv_to_CCT ::
  "cmfs \<Rightarrow> real \<times> real \<Rightarrow> string \<Rightarrow> kwargs \<Rightarrow> error + (np_float64 \<times> np_float64)" where
  "uv_to_CCT standard uv method kw =
     (if method = ''Ohno 2013'' then call_method (UV_TO_CCT_METHODS standard) method (uv, kw)
      else bind_res (robertson_observer_check kw)
             (\<lambda>_. call_method (UV_TO_CCT_METHODS standard) method (uv, no_kwargs)))"

definition CCT_TO_UV_METHODS ::
  "cmfs \<Rightarrow> string \<rightharpoonup> (((real \<times> real) \<times> kwargs) \<Rightarrow> error + (real \<times> real))" where
  "CCT_TO_UV_METHODS standard =
     [''Ohno 2013'' \<mapsto>
        (\<lambda>((CCT, Duv), kw).
           if kw_start kw = None \<and> kw_end kw = None \<and> kw_count kw = None
              \<and> kw_iterations kw = None
           then CCT_to_uv_ohno2013 CCT Duv (case kw_cmfs kw of None \<Rightarrow> standard | Some c \<Rightarrow> c)
           else Inl unexpected_keyword),
      ''Robertson 1968'' \<mapsto>
        (\<lambda>((CCT, Duv), kw). if kw = no_kwargs then CCT_to_uv_robertson1968 CCT Duv
                             else Inl unexpected_keyword)]"

definition CCT_to_uv :: "cmfs \<Rightarrow> real \<Rightarrow> real \<Rightarrow> string \<Rightarrow> kwargs \<Rightarrow> error + (real \<times> real)" where
  "CCT_to_uv standard CCT Duv method kw =
     (if method = ''Ohno 2013''
      then call_method (CCT_TO_UV_METHODS standard) method ((CCT, Duv), kw)
      else bind_res (robertson_observer_check kw)
             (\<lambda>_. call_method (CCT_TO_UV_METHODS standard) method ((CCT, Duv), no_kwargs)))"

definition XY_TO_CCT_METHODS :: "string \<rightharpoonup> (real \<times> real \<Rightarrow> error + pyfloat)" where
  "XY_TO_CCT_METHODS =
     [''McCamy 1992'' \<mapsto> xy_to_CCT_mccamy1992, ''Hernandez 1999'' \<mapsto> xy_to_CCT_hernandez1999]"

text \<open>Line 871: the keywords of \<^verbatim>\<open>xy_to_CCT\<close> are accepted and never read.\<close>

definition xy_to_CCT :: "real \<times> real \<Rightarrow> string \<Rightarrow> kwargs \<Rightarrow> error + pyfloat" where
  "xy_to_CCT xy method kw = call_method XY_TO_CCT_METHODS method xy"

definition CCT_TO_XY_METHODS :: "string \<rightharpoonup> (real \<Rightarrow> error + (real \<times> real))" where
  "CCT_TO_XY_METHODS =
     [''Kang 2002'' \<mapsto> CCT_to_xy_kang2002,
      ''CIE Illuminant D Series'' \<mapsto> CCT_to_xy_illuminant_D]"

definition CCT_to_xy :: "real \<Rightarrow> string \<Rightarrow> error + (real \<times> real)" where
  "CCT_to_xy CCT method = call_method CCT_TO_XY_METHODS method CCT"

subsection \<open>An observer for concrete evaluations\<close>

text \<open>
  The tables of the standard observers are not part of the module. This observer, with
  a locus on the \<open>u\<close> axis through \<open>-0.3\<close>, \<open>0\<close> and \<open>0.75\<close> at 1000 K, 2000 K and 3000 K,
  serves where a property is evaluated on a concrete call.
\<close>

definition example_observer :: cmfs where
  "example_observer =
     \<lparr>cmfs_name = ''Example Observer'',
      cmfs_planckian_uv =
        (\<lambda>T. (0.225 * ((T - 2000) / 1000) ^ 2 + 0.525 * ((T - 2000) / 1000), 0))\<rparr>"

text \<open>A second observer, with a locus that is linear in the temperature.\<close>

definition linear_observer :: cmfs where
  "linear_observer =
     \<lparr>cmfs_name = ''Linear Observer'', cmfs_planckian_uv = (\<lambda>T. (T / 10000, 0))\<rparr>"

section \<open>Properties\<close>

lemma bind_res_Inr [simp]: "bind_res (Inr x) f = f x"
  by (simp add: bind_res_def)

lemma bind_res_Inl [simp]: "bind_res (Inl e) f = Inl e"
  by (simp add: bind_res_def)

subsection \<open>Kang et al. (2002)\<close>

text \<open>
  Claim C3. \<open>CCT_to_xy_kang2002\<close> raises the domain \<open>ValueError\<close>, with no partial
  result, for every temperature outside \<open>[1667, 25000]\<close>, among them 500 and 30000,
  and returns a pair for every temperature inside the interval.
\<close>

theorem kang2002_domain:
  "(CCT < 1667 \<or> 25000 < CCT \<longrightarrow>
      CCT_to_xy_kang2002 CCT = Inl (ValueError kang_domain_message))
   \<and> (1667 \<le> CCT \<and> CCT \<le> 25000 \<longrightarrow> (\<exists>x y. CCT_to_xy_kang2002 CCT = Inr (x, y)))
   \<and> CCT_to_xy_kang2002 500 = Inl (ValueError kang_domain_message)
   \<and> CCT_to_xy_kang2002 30000 = Inl (ValueError kang_domain_message)"
  by (auto simp add: CCT_to_xy_kang2002_def)

theorem kang2002_domain_witness:
  "CCT_to_xy_kang2002 1000 = Inl (ValueError kang_domain_message)
   \<and> (\<exists>x y. CCT_to_xy_kang2002 6500 = Inr (x, y))"
  using kang2002_domain [of 1000] kang2002_domain [of 6500] by simp

text \<open>
  Claim C7, as the code has it. The three cubics for \<open>y\<close> are selected by the ranges
  \<open>[1667, 2222]\<close>, \<open>(2222, 4000]\<close> and \<open>(4000, 25000]\<close>: the tests are closed
  intervals tried in order, so a shared end point belongs to the lower range. The
  polynomial for \<open>x\<close> changes at 4000 in the same way.
\<close>

theorem kang2002_ranges:
  "(1667 \<le> CCT \<and> CCT \<le> 2222 \<longrightarrow>
      CCT_to_xy_kang2002 CCT = Inr (kang_x_low CCT, kang_y_first (kang_x_low CCT)))
   \<and> (2222 < CCT \<and> CCT \<le> 4000 \<longrightarrow>
      CCT_to_xy_kang2002 CCT = Inr (kang_x_low CCT, kang_y_second (kang_x_low CCT)))
   \<and> (4000 < CCT \<and> CCT \<le> 25000 \<longrightarrow>
      CCT_to_xy_kang2002 CCT = Inr (kang_x_high CCT, kang_y_third (kang_x_high CCT)))"
  by (simp add: CCT_to_xy_kang2002_def)

theorem kang2002_ranges_witness:
  "CCT_to_xy_kang2002 2000 = Inr (kang_x_low 2000, kang_y_first (kang_x_low 2000))
   \<and> CCT_to_xy_kang2002 3000 = Inr (kang_x_low 3000, kang_y_second (kang_x_low 3000))
   \<and> CCT_to_xy_kang2002 6500 = Inr (kang_x_high 6500, kang_y_third (kang_x_high 6500))"
  using kang2002_ranges [of 2000] kang2002_ranges [of 3000] kang2002_ranges [of 6500]
  by simp

text \<open>
  At 2222 the first cubic is used and its value differs from the second cubic's; at 4000
  the second cubic is used and its value differs from the third cubic's.
\<close>

theorem kang2002_ranges_counterexample:
  "CCT_to_xy_kang2002 2222 = Inr (kang_x_low 2222, kang_y_first (kang_x_low 2222))
   \<and> kang_y_first (kang_x_low 2222) \<noteq> kang_y_second (kang_x_low 2222)
   \<and> CCT_to_xy_kang2002 4000 = Inr (kang_x_low 4000, kang_y_second (kang_x_low 4000))
   \<and> kang_y_second (kang_x_low 4000) \<noteq> kang_y_third (kang_x_low 4000)"
  by (simp add: CCT_to_xy_kang2002_def kang_x_low_def kang_y_first_def kang_y_second_def
      kang_y_third_def power_divide)

subsection \<open>McCamy (1992)\<close>


lemma float_overflow_large: "10 ^ 305 < FLOAT_OVERFLOW"
  by (simp add: FLOAT_OVERFLOW_def)

lemma overflow_Fin: "\<bar>z\<bar> < FLOAT_OVERFLOW \<Longrightarrow> overflow z = Fin z"
  by (auto simp add: overflow_def)


lemma fl_sub_Fin: "fl_sub (Fin a) (Fin b) = overflow (a - b)"
  by (simp add: fl_sub_def)












subsection \<open>Hernandez-Andres, Lee and Romero (1999)\<close>

text \<open>The exponential of the second term overflows at \<open>(0.25, 0.174)\<close>, and the call raises.\<close>

lemma exp_864_overflows: "FLOAT_OVERFLOW \<le> exp (864 :: real)"
proof -
  have "(2 :: real) \<le> 1 + 27 / 32 + (27 / 32)\<^sup>2 / 2" by (simp add: power2_eq_square)
  also have "\<dots> \<le> exp (27 / 32)" by (rule exp_lower_Taylor_quadratic) simp
  finally have "(2 :: real) ^ 1024 \<le> exp (27 / 32) ^ 1024" by (intro power_mono) simp_all
  moreover have "exp (864 :: real) = exp (27 / 32) ^ 1024"
    using exp_of_nat_mult [of 1024 "27 / 32 :: real"] by simp
  moreover have "FLOAT_OVERFLOW \<le> 2 ^ 1024" by (simp add: FLOAT_OVERFLOW_def)
  ultimately show ?thesis by linarith
qed

lemma hernandez_term_Fin:
  assumes "d \<noteq> 0" "\<bar>- z / d\<bar> < FLOAT_OVERFLOW"
  shows "hernandez_term c (Fin z) d =
           (if FLOAT_OVERFLOW \<le> exp (- z / d) then Inl OverflowError
            else Inr (fl_mul (Fin c) (Fin (exp (- z / d)))))"
  using assms by (simp add: hernandez_term_def overflow_Fin)

lemma hernandez1999_overflow_example:
  "xy_to_CCT_hernandez1999 (0.25, 0.174) = Inl OverflowError"
proof -
  have n: "py_truediv (fl_sub (Fin 0.25) (Fin 0.3366)) (fl_sub (Fin 0.174) (Fin 0.1735))
             = Inr (Fin (- 173.2))"
    using float_overflow_large by (simp add: fl_sub_Fin overflow_def)
  have "\<bar>- (- 173.2) / 0.92159 :: real\<bar> < FLOAT_OVERFLOW"
    using float_overflow_large by simp
  then have t1: "hernandez_term 6253.80338 (Fin (- 173.2)) 0.92159 = Inl OverflowError
                 \<or> (\<exists>t. hernandez_term 6253.80338 (Fin (- 173.2)) 0.92159 = Inr t)"
    by (subst hernandez_term_Fin, simp, assumption)+ simp
  have "(864 :: real) \<le> - (- 173.2) / 0.20039" by simp
  then have "exp (864 :: real) \<le> exp (- (- 173.2) / 0.20039)" by (simp only: exp_le_cancel_iff)
  with exp_864_overflows have o: "FLOAT_OVERFLOW \<le> exp (- (- 173.2) / 0.20039 :: real)"
    by linarith
  have "\<bar>- (- 173.2) / 0.20039 :: real\<bar> < FLOAT_OVERFLOW"
    using float_overflow_large by simp
  then have t2: "hernandez_term 28.70599 (Fin (- 173.2)) 0.20039 = Inl OverflowError"
    using o by (subst hernandez_term_Fin) (simp_all only: if_True, simp)
  show ?thesis
    unfolding xy_to_CCT_hernandez1999_def prod.case n bind_res_Inr
    using t1 t2 by (auto simp only: bind_res_Inl bind_res_Inr)
qed

subsection \<open>The minimal distance index\<close>

lemma py_min_Min: "xs \<noteq> [] \<Longrightarrow> py_min xs = Inr (Min (set xs))"
proof (cases xs)
  case Nil
  assume "xs \<noteq> []"
  with Nil show ?thesis by simp
next
  case (Cons x rest)
  have "(\<lambda>y m. if y < m then y else m) = (min :: real \<Rightarrow> real \<Rightarrow> real)"
    by (intro ext) (simp add: min_def)
  moreover have "fold min rest x = Min (set (x # rest))"
    by (rule Min.set_eq_fold [symmetric])
  ultimately show ?thesis
    using Cons by (simp del: set_simps)
qed

lemma py_list_index_first:
  "x \<in> set xs \<Longrightarrow>
     \<exists>i. py_list_index xs x = Inr i \<and> i < length xs \<and> xs ! i = x \<and> (\<forall>j<i. xs ! j \<noteq> x)"
proof (induction xs)
  case Nil
  then show ?case by simp
next
  case (Cons y ys)
  show ?case
  proof (cases "y = x")
    case True
    then show ?thesis by simp
  next
    case False
    with Cons.prems have "x \<in> set ys" by simp
    then obtain i where i: "py_list_index ys x = Inr i" "i < length ys" "ys ! i = x"
      "\<forall>j<i. ys ! j \<noteq> x"
      using Cons.IH by blast
    have "\<forall>j<Suc i. (y # ys) ! j \<noteq> x"
      using False i(4) by (auto simp add: less_Suc_eq_0_disj)
    with False i show ?thesis by simp
  qed
qed

lemma minimal_distance_index_spec:
  assumes ne: "planckian_table \<noteq> []"
  shows "\<exists>i. get_planckian_table_minimal_distance_index planckian_table = Inr i
        \<and> i < length planckian_table
        \<and> (\<forall>j<length planckian_table. di (planckian_table ! i) \<le> di (planckian_table ! j))
        \<and> (\<forall>j<i. di (planckian_table ! i) < di (planckian_table ! j))"
proof -
  define ds where "ds = map di planckian_table"
  have dne: "ds \<noteq> []" using ne by (simp add: ds_def)
  have m: "py_min ds = Inr (Min (set ds))" using dne by (rule py_min_Min)
  have "Min (set ds) \<in> set ds" using dne by (intro Min_in) simp_all
  then obtain i where i: "py_list_index ds (Min (set ds)) = Inr i" "i < length ds"
    "ds ! i = Min (set ds)" "\<forall>j<i. ds ! j \<noteq> Min (set ds)"
    using py_list_index_first by blast
  have le: "ds ! i \<le> ds ! j" if "j < length ds" for j
    using that i(3) by (simp add: Min_le)
  have lt: "ds ! i < ds ! j" if "j < i" for j
  proof -
    have "j < length ds" using that i(2) by simp
    then have "ds ! i \<le> ds ! j" by (rule le)
    moreover have "ds ! j \<noteq> ds ! i" using that i(3,4) by simp
    ultimately show ?thesis by simp
  qed
  have res: "get_planckian_table_minimal_distance_index planckian_table = Inr i"
    using m i(1) by (simp add: get_planckian_table_minimal_distance_index_def ds_def [symmetric])
  have len: "length ds = length planckian_table" by (simp add: ds_def)
  have nth: "ds ! j = di (planckian_table ! j)" if "j < length planckian_table" for j
    using that by (simp add: ds_def)
  show ?thesis
  proof (intro exI conjI allI impI)
    show "get_planckian_table_minimal_distance_index planckian_table = Inr i" by (rule res)
    show "i < length planckian_table" using i(2) len by simp
    show "di (planckian_table ! i) \<le> di (planckian_table ! j)"
      if "j < length planckian_table" for j
      using le [of j] that nth [of j] nth [of i] i(2) len by simp
    show "di (planckian_table ! i) < di (planckian_table ! j)" if "j < i" for j
      using lt [of j] that nth [of j] nth [of i] i(2) len by simp
  qed
qed

text \<open>
  Claim C6. On a table that is not empty, \<open>get_planckian_table_minimal_distance_index\<close>
  returns an index \<open>i\<close> of the table whose distance is at most every distance of the
  table and strictly below the distance of every earlier entry: the first minimum.
\<close>

theorem minimal_distance_index_first_minimum:
  "planckian_table \<noteq> [] \<Longrightarrow>
     \<exists>i. get_planckian_table_minimal_distance_index planckian_table = Inr i
        \<and> i < length planckian_table
        \<and> (\<forall>j<length planckian_table. di (planckian_table ! i) \<le> di (planckian_table ! j))
        \<and> (\<forall>j<i. di (planckian_table ! i) < di (planckian_table ! j))"
  by (rule minimal_distance_index_spec)

theorem minimal_distance_index_first_minimum_witness:
  "[\<lparr>Ti = 1000, ui = 0, vi = 0, di = 0.5\<rparr>, \<lparr>Ti = 2000, ui = 0, vi = 0, di = 0.4\<rparr>,
    \<lparr>Ti = 3000, ui = 0, vi = 0, di = 0.4\<rparr>] \<noteq> []
   \<and> get_planckian_table_minimal_distance_index
       [\<lparr>Ti = 1000, ui = 0, vi = 0, di = 0.5\<rparr>, \<lparr>Ti = 2000, ui = 0, vi = 0, di = 0.4\<rparr>,
        \<lparr>Ti = 3000, ui = 0, vi = 0, di = 0.4\<rparr>] = Inr 1"
  using minimal_distance_index_first_minimum
    [of "[\<lparr>Ti = 1000, ui = 0, vi = 0, di = 0.5\<rparr>, \<lparr>Ti = 2000, ui = 0, vi = 0, di = 0.4\<rparr>,
          \<lparr>Ti = 3000, ui = 0, vi = 0, di = 0.4\<rparr>]"]
  by (simp add: get_planckian_table_minimal_distance_index_def)

subsection \<open>Dispatch by method name\<close>

lemma robertson_observer_check_cases:
  "robertson_observer_check kw =
     (if \<exists>c. kw_cmfs kw = Some c \<and> cmfs_name c \<noteq> OBSERVER_NAME
      then Inl (ValueError robertson_observer_message) else Inr ())"
  by (cases "kw_cmfs kw") (simp_all add: robertson_observer_check_def)

text \<open>
  Claim C9. In \<open>uv_to_CCT\<close> and \<open>CCT_to_uv\<close> every method name other than
  \<open>''Ohno 2013''\<close>, registered or not, takes the Robertson branch: with a \<open>cmfs\<close> keyword
  whose name is not the CIE 1931 2 degree observer's, the call raises the observer
  \<open>ValueError\<close>, whatever the registry holds for the name and whatever the numeric
  arguments are.
\<close>

theorem robertson_branch_rejects_observer:
  "method \<noteq> ''Ohno 2013'' \<Longrightarrow> kw_cmfs kw = Some c \<Longrightarrow> cmfs_name c \<noteq> OBSERVER_NAME \<Longrightarrow>
     uv_to_CCT standard uv method kw = Inl (ValueError robertson_observer_message)
     \<and> CCT_to_uv standard CCT Duv method kw = Inl (ValueError robertson_observer_message)"
  by (simp add: uv_to_CCT_def CCT_to_uv_def robertson_observer_check_def)

theorem robertson_branch_rejects_observer_witness:
  "''Bogus 1900'' \<noteq> ''Ohno 2013''
   \<and> kw_cmfs (no_kwargs\<lparr>kw_cmfs := Some example_observer\<rparr>) = Some example_observer
   \<and> cmfs_name example_observer \<noteq> OBSERVER_NAME
   \<and> uv_to_CCT example_observer (0.2, 0.3) ''Bogus 1900''
        (no_kwargs\<lparr>kw_cmfs := Some example_observer\<rparr>)
      = Inl (ValueError robertson_observer_message)
   \<and> CCT_to_uv example_observer 6500 0 ''Bogus 1900''
        (no_kwargs\<lparr>kw_cmfs := Some example_observer\<rparr>)
      = Inl (ValueError robertson_observer_message)"
proof -
  have m: "''Bogus 1900'' \<noteq> ''Ohno 2013''" by simp
  have k: "kw_cmfs (no_kwargs\<lparr>kw_cmfs := Some example_observer\<rparr>) = Some example_observer"
    by simp
  have n: "cmfs_name example_observer \<noteq> OBSERVER_NAME"
    by (simp add: example_observer_def OBSERVER_NAME_def)
  show ?thesis
    using m k n robertson_branch_rejects_observer [OF m k n, of example_observer "(0.2, 0.3)" 6500 0]
    by simp
qed

lemma registered_names:
  "(UV_TO_CCT_METHODS standard name = None) = (name \<noteq> ''Ohno 2013'' \<and> name \<noteq> ''Robertson 1968'')"
  "(CCT_TO_UV_METHODS standard name = None) = (name \<noteq> ''Ohno 2013'' \<and> name \<noteq> ''Robertson 1968'')"
  "(XY_TO_CCT_METHODS name = None) = (name \<noteq> ''McCamy 1992'' \<and> name \<noteq> ''Hernandez 1999'')"
  "(CCT_TO_XY_METHODS name = None) = (name \<noteq> ''Kang 2002'' \<and> name \<noteq> ''CIE Illuminant D Series'')"
  by (auto simp add: UV_TO_CCT_METHODS_def CCT_TO_UV_METHODS_def XY_TO_CCT_METHODS_def
      CCT_TO_XY_METHODS_def)

lemma bogus_not_registered:
  "UV_TO_CCT_METHODS standard ''Bogus 1900'' = None"
  "CCT_TO_UV_METHODS standard ''Bogus 1900'' = None"
  "XY_TO_CCT_METHODS ''Bogus 1900'' = None"
  "CCT_TO_XY_METHODS ''Bogus 1900'' = None"
  by (simp_all add: UV_TO_CCT_METHODS_def CCT_TO_UV_METHODS_def XY_TO_CCT_METHODS_def
      CCT_TO_XY_METHODS_def)

text \<open>
  Claim C4, as the code has it. A method name that is missing from the registry makes
  each of the four dispatch functions fail instead of returning: \<open>xy_to_CCT\<close> and
  \<open>CCT_to_xy\<close> always fail on calling the \<^verbatim>\<open>None\<close> that the lookup answered, and so do
  \<open>uv_to_CCT\<close> and \<open>CCT_to_uv\<close> unless a \<open>cmfs\<close> keyword names another observer than
  the CIE 1931 2 degree one, in which case they raise the observer \<open>ValueError\<close> of the
  Robertson branch first.
\<close>

theorem unknown_method_fails:
  "(UV_TO_CCT_METHODS standard method = None \<longrightarrow>
      uv_to_CCT standard uv method kw =
        Inl (if \<exists>c. kw_cmfs kw = Some c \<and> cmfs_name c \<noteq> OBSERVER_NAME
             then ValueError robertson_observer_message else not_callable))
   \<and> (CCT_TO_UV_METHODS standard method = None \<longrightarrow>
      CCT_to_uv standard CCT Duv method kw =
        Inl (if \<exists>c. kw_cmfs kw = Some c \<and> cmfs_name c \<noteq> OBSERVER_NAME
             then ValueError robertson_observer_message else not_callable))
   \<and> (XY_TO_CCT_METHODS method = None \<longrightarrow> xy_to_CCT xy method kw = Inl not_callable)
   \<and> (CCT_TO_XY_METHODS method = None \<longrightarrow> CCT_to_xy CCT method = Inl not_callable)"
proof (intro conjI impI)
  assume "UV_TO_CCT_METHODS standard method = None"
  moreover from this have "method \<noteq> ''Ohno 2013''"
    by (auto simp add: UV_TO_CCT_METHODS_def)
  ultimately show "uv_to_CCT standard uv method kw =
        Inl (if \<exists>c. kw_cmfs kw = Some c \<and> cmfs_name c \<noteq> OBSERVER_NAME
             then ValueError robertson_observer_message else not_callable)"
    by (auto simp add: uv_to_CCT_def call_method_def robertson_observer_check_cases)
next
  assume "CCT_TO_UV_METHODS standard method = None"
  moreover from this have "method \<noteq> ''Ohno 2013''"
    by (auto simp add: CCT_TO_UV_METHODS_def)
  ultimately show "CCT_to_uv standard CCT Duv method kw =
        Inl (if \<exists>c. kw_cmfs kw = Some c \<and> cmfs_name c \<noteq> OBSERVER_NAME
             then ValueError robertson_observer_message else not_callable)"
    by (auto simp add: CCT_to_uv_def call_method_def robertson_observer_check_cases)
next
  assume "XY_TO_CCT_METHODS method = None"
  then show "xy_to_CCT xy method kw = Inl not_callable"
    by (simp add: xy_to_CCT_def call_method_def)
next
  assume "CCT_TO_XY_METHODS method = None"
  then show "CCT_to_xy CCT method = Inl not_callable"
    by (simp add: CCT_to_xy_def call_method_def)
qed


theorem unknown_method_fails_witness:
  "uv_to_CCT example_observer (0.2, 0.3) ''Bogus 1900'' no_kwargs = Inl not_callable
   \<and> CCT_to_uv example_observer 6500 0 ''Bogus 1900'' no_kwargs = Inl not_callable
   \<and> xy_to_CCT (0.31271, 0.32902) ''Bogus 1900'' no_kwargs = Inl not_callable
   \<and> CCT_to_xy 6500 ''Bogus 1900'' = Inl not_callable"
  using unknown_method_fails [of example_observer "''Bogus 1900''" "(0.2, 0.3)" no_kwargs 6500 0
      "(0.31271, 0.32902)"]
  by (simp add: bogus_not_registered no_kwargs_def)

text \<open>
  With an observer keyword of another name, the unregistered \<open>''Bogus 1900''\<close> ends in
  the observer \<open>ValueError\<close>, not in the failed lookup.
\<close>

theorem unknown_method_counterexample:
  "UV_TO_CCT_METHODS example_observer ''Bogus 1900'' = None
   \<and> uv_to_CCT example_observer (0.2, 0.3) ''Bogus 1900''
        (no_kwargs\<lparr>kw_cmfs := Some example_observer\<rparr>)
      = Inl (ValueError robertson_observer_message)
   \<and> ValueError robertson_observer_message \<noteq> not_callable"
  by (simp add: bogus_not_registered uv_to_CCT_def robertson_observer_check_def
      example_observer_def OBSERVER_NAME_def not_callable_def)

subsection \<open>Robertson (1968): uv to CCT\<close>
















subsection \<open>Robertson (1968): CCT to uv\<close>

text \<open>The scan always takes its branch, at the latest at index 29.\<close>

lemma robertson_scan_from:
  "k \<le> 29 \<Longrightarrow>
     \<exists>i. k \<le> i \<and> i \<le> 29 \<and> robertson_scan r Duv [k..<30] = robertson_offset r Duv i"
proof (induction "29 - k" arbitrary: k)
  case 0
  then have "k = 29" by simp
  then show ?case by (auto simp add: upt_conv_Cons intro!: exI [of _ 29])
next
  case (Suc n)
  then have k: "k < 29" by simp
  then have upt: "[k..<30] = k # [Suc k..<30]" by (simp add: upt_conv_Cons)
  show ?case
  proof (cases "r < wr_r (ROBERTSON_ISOTEMPERATURE_LINES ! (k + 1))")
    case True
    then show ?thesis using k by (auto simp add: upt)
  next
    case False
    have "n = 29 - Suc k" using Suc.hyps(2) by simp
    moreover have "Suc k \<le> 29" using k by simp
    ultimately obtain i where "Suc k \<le> i" "i \<le> 29"
      "robertson_scan r Duv [Suc k..<30] = robertson_offset r Duv i"
      using Suc.hyps(1) by blast
    then show ?thesis using False k by (auto simp add: upt intro!: exI [of _ i])
  qed
qed

lemma CCT_to_uv_robertson1968_branch:
  "CCT \<noteq> 0 \<Longrightarrow>
     \<exists>i\<le>29. CCT_to_uv_robertson1968 CCT Duv = robertson_offset (1000000 / CCT) Duv i"
  using robertson_scan_from [of 0 "1000000 / CCT" Duv]
  by (auto simp add: CCT_to_uv_robertson1968_def py_div_def)

subsection \<open>Ohno (2013): uv to CCT\<close>

lemma sqrt_sq: "0 \<le> b \<Longrightarrow> a = b ^ 2 \<Longrightarrow> sqrt a = b"
  by (simp add: real_sqrt_unique)

lemma example_linspace: "linspace 1000 3000 3 = [1000, 2000, 3000]"
  by (simp add: linspace_def upt_conv_Cons numeral_3_eq_3)

lemma sqrt_values:
  "sqrt (1 / 4) = 1 / 2" "sqrt (4 / 25) = 2 / 5" "sqrt (289 / 400) = 17 / 20"
  "sqrt (441 / 400) = 21 / 20" "sqrt (9 / 100) = 3 / 10" "sqrt (81 / 100) = 9 / 10"
  "sqrt (16 / 25) = 4 / 5" "sqrt (49 / 100) = 7 / 10" "sqrt (1 / 25) = 1 / 5"
  by (rule sqrt_sq, simp, simp add: power2_eq_square)+

lemma example_table:
  "get_planckian_table (0, - 0.4) example_observer 1000 3000 3 =
     [\<lparr>Ti = 1000, ui = - 0.3, vi = 0, di = 0.5\<rparr>, \<lparr>Ti = 2000, ui = 0, vi = 0, di = 0.4\<rparr>,
      \<lparr>Ti = 3000, ui = 0.75, vi = 0, di = 0.85\<rparr>]"
  unfolding get_planckian_table_def example_linspace
  by (simp add: example_observer_def power2_eq_square sqrt_values)

lemma linspace_length: "length (linspace start end' count) = count"
  by (simp add: linspace_def)

lemma get_planckian_table_length:
  "length (get_planckian_table uv cmfs start end' count) = count"
  by (cases uv) (simp add: get_planckian_table_def linspace_length)

lemma py_getitem_in_range:
  "0 \<le> i \<Longrightarrow> i < int (length xs) \<Longrightarrow> py_getitem xs i = Inr (xs ! nat i)"
  by (simp add: py_getitem_def)

lemma ohno_adjust_index_cases:
  assumes "3 \<le> len" "m < len" "ohno_adjust_index len (int m) ws = (idx, ws')"
  shows "(m = 0 \<longrightarrow> idx = 1 \<and> ws' = ws @ [warning_lowest])
       \<and> (m = len - 1 \<longrightarrow> idx = int len - 2 \<and> ws' = ws @ [warning_highest])
       \<and> (0 < m \<and> m < len - 1 \<longrightarrow> idx = int m \<and> ws' = ws)
       \<and> 1 \<le> idx \<and> idx + 1 < int len"
  using assms by (auto simp add: ohno_adjust_index_def split: if_splits)

lemma ohno_iteration_step:
  assumes c: "3 \<le> count"
  shows "\<exists>m idx ws'.
     get_planckian_table_minimal_distance_index (get_planckian_table uv cmfs start end' count)
       = Inr m
     \<and> m < count
     \<and> ohno_adjust_index count (int m) ws = (idx, ws')
     \<and> (m = 0 \<longrightarrow> idx = 1 \<and> ws' = ws @ [warning_lowest])
     \<and> (m = count - 1 \<longrightarrow> idx = int count - 2 \<and> ws' = ws @ [warning_highest])
     \<and> (0 < m \<and> m < count - 1 \<longrightarrow> idx = int m \<and> ws' = ws)
     \<and> 1 \<le> idx \<and> idx + 1 < int count
     \<and> ohno_iteration uv cmfs start end' count ws
         = Inr (Ti (get_planckian_table uv cmfs start end' count ! nat (idx - 1)),
                Ti (get_planckian_table uv cmfs start end' count ! nat (idx + 1)),
                get_planckian_table uv cmfs start end' count, idx, ws')
     \<and> ohno_triple (get_planckian_table uv cmfs start end' count) idx
         = Inr (get_planckian_table uv cmfs start end' count ! nat (idx - 1),
                get_planckian_table uv cmfs start end' count ! nat idx,
                get_planckian_table uv cmfs start end' count ! nat (idx + 1))"
proof -
  define table where "table = get_planckian_table uv cmfs start end' count"
  have len: "length table = count"
    by (simp add: table_def get_planckian_table_length)
  then have "table \<noteq> []" using c by auto
  then obtain m where m: "get_planckian_table_minimal_distance_index table = Inr m"
    "m < length table"
    using minimal_distance_index_spec by blast
  obtain idx ws' where a: "ohno_adjust_index count (int m) ws = (idx, ws')"
    by (cases "ohno_adjust_index count (int m) ws")
  have r: "(m = 0 \<longrightarrow> idx = 1 \<and> ws' = ws @ [warning_lowest])
       \<and> (m = count - 1 \<longrightarrow> idx = int count - 2 \<and> ws' = ws @ [warning_highest])
       \<and> (0 < m \<and> m < count - 1 \<longrightarrow> idx = int m \<and> ws' = ws)
       \<and> 1 \<le> idx \<and> idx + 1 < int count"
    using c m(2) a unfolding len by (rule ohno_adjust_index_cases)
  have g1: "py_getitem table (idx - 1) = Inr (table ! nat (idx - 1))"
    using r len by (intro py_getitem_in_range) simp_all
  have g2: "py_getitem table idx = Inr (table ! nat idx)"
    using r len by (intro py_getitem_in_range) simp_all
  have g3: "py_getitem table (idx + 1) = Inr (table ! nat (idx + 1))"
    using r len by (intro py_getitem_in_range) simp_all
  have it: "ohno_iteration uv cmfs start end' count ws
         = Inr (Ti (table ! nat (idx - 1)), Ti (table ! nat (idx + 1)), table, idx, ws')"
    using m(1) a g1 g3 len by (simp add: ohno_iteration_def table_def [symmetric])
  have tr: "ohno_triple table idx
         = Inr (table ! nat (idx - 1), table ! nat idx, table ! nat (idx + 1))"
    using g1 g2 g3 by (simp add: ohno_triple_def)
  show ?thesis
    using m a r it tr len unfolding table_def [symmetric] by blast
qed

lemma ohno_iteration_ok:
  assumes "3 \<le> count"
  shows "\<exists>s e table idx ws'.
           ohno_iteration uv cmfs start end' count ws = Inr (s, e, table, idx, ws')
           \<and> length table = count \<and> 1 \<le> idx \<and> idx + 1 < int count"
  using ohno_iteration_step [OF assms, of uv cmfs start end' ws]
  by (auto simp add: get_planckian_table_length)

lemma ohno_cascade_ok:
  assumes "3 \<le> count"
  shows "\<exists>s e table idx ws'.
           ohno_cascade uv cmfs count (Suc k) st = Inr (s, e, table, idx, ws')
           \<and> length table = count \<and> 1 \<le> idx \<and> idx + 1 < int count"
proof (induction k arbitrary: st)
  case 0
  obtain start end' tb ix ws where st: "st = (start, end', tb, ix, ws)"
    by (cases st)
  show ?case
    using ohno_iteration_ok [OF assms, of uv cmfs start end' ws] by (auto simp add: st)
next
  case (Suc k)
  obtain start end' tb ix ws where st: "st = (start, end', tb, ix, ws)"
    by (cases st)
  obtain st' where "ohno_iteration uv cmfs start end' count ws = Inr st'"
    using ohno_iteration_ok [OF assms, of uv cmfs start end' ws] by blast
  then have "ohno_cascade uv cmfs count (Suc (Suc k)) st = ohno_cascade uv cmfs count (Suc k) st'"
    by (simp add: st)
  then show ?case using Suc.IH [of st'] by simp
qed

lemma ohno_triangular_no_IndexError: "ohno_triangular p n uv \<noteq> Inl IndexError"
  by (cases uv)
    (simp add: ohno_triangular_def Let_def bind_res_def py_div_def py_pow_half_def
      split: sum.splits)

lemma ohno_solution_no_IndexError: "ohno_solution p c n uv \<noteq> Inl IndexError"
  using ohno_triangular_no_IndexError [of p n uv]
  by (auto simp add: ohno_solution_def bind_res_def split: sum.splits)

lemma uv_to_CCT_ohno2013_no_IndexError:
  assumes "3 \<le> count"
  shows "uv_to_CCT_ohno2013 uv cmfs start end' count iterations \<noteq> Inl IndexError"
proof -
  define k where "k = nat (if iterations \<le> 0 then 1 else iterations) - 1"
  have k: "nat (if iterations \<le> 0 then 1 else iterations) = Suc k"
    by (simp add: k_def)
  obtain s e table idx ws where c:
    "ohno_cascade uv cmfs count (Suc k) (start, end', [], 0, []) = Inr (s, e, table, idx, ws)"
    "length table = count" "1 \<le> idx" "idx + 1 < int count"
    using ohno_cascade_ok [OF assms] by blast
  have "ohno_triple table idx
         = Inr (table ! nat (idx - 1), table ! nat idx, table ! nat (idx + 1))"
    using c(2,3,4) by (simp add: ohno_triple_def py_getitem_in_range)
  then show ?thesis
    using c(1) k
      ohno_solution_no_IndexError [of "table ! nat (idx - 1)" "table ! nat idx"
        "table ! nat (idx + 1)" uv]
    by (auto simp add: uv_to_CCT_ohno2013_def ohno_run_def Let_def bind_res_def
        split: sum.splits)
qed

lemma example_index:
  "get_planckian_table_minimal_distance_index
     [\<lparr>Ti = 1000, ui = - 0.3, vi = 0, di = 0.5\<rparr>, \<lparr>Ti = 2000, ui = 0, vi = 0, di = 0.4\<rparr>,
      \<lparr>Ti = 3000, ui = 0.75, vi = 0, di = 0.85\<rparr>] = Inr 1"
  by (simp add: get_planckian_table_minimal_distance_index_def)

lemma example_iteration:
  "ohno_iteration (0, - 0.4) example_observer 1000 3000 3 [] =
     Inr (1000, 3000,
          [\<lparr>Ti = 1000, ui = - 0.3, vi = 0, di = 0.5\<rparr>, \<lparr>Ti = 2000, ui = 0, vi = 0, di = 0.4\<rparr>,
           \<lparr>Ti = 3000, ui = 0.75, vi = 0, di = 0.85\<rparr>], 1, [])"
  unfolding ohno_iteration_def Let_def example_table example_index
  by (simp add: ohno_adjust_index_def py_getitem_def)

lemma example_triple:
  "ohno_triple
     [\<lparr>Ti = 1000, ui = - 0.3, vi = 0, di = 0.5\<rparr>, \<lparr>Ti = 2000, ui = 0, vi = 0, di = 0.4\<rparr>,
      \<lparr>Ti = 3000, ui = 0.75, vi = 0, di = 0.85\<rparr>] 1
   = Inr (\<lparr>Ti = 1000, ui = - 0.3, vi = 0, di = 0.5\<rparr>, \<lparr>Ti = 2000, ui = 0, vi = 0, di = 0.4\<rparr>,
          \<lparr>Ti = 3000, ui = 0.75, vi = 0, di = 0.85\<rparr>)"
  by (simp add: ohno_triple_def py_getitem_def)

lemma example_triangular:
  "ohno_triangular \<lparr>Ti = 1000, ui = - 0.3, vi = 0, di = 0.5\<rparr>
     \<lparr>Ti = 3000, ui = 0.75, vi = 0, di = 0.85\<rparr> (0, - 0.4) = Inr (11000 / 7, - 0.4, - 1)"
  by (simp add: ohno_triangular_def Let_def py_div_def py_pow_half_def power2_eq_square
      sqrt_values)

lemma example_parabolic:
  "ohno_parabolic \<lparr>Ti = 1000, ui = - 0.3, vi = 0, di = 0.5\<rparr>
     \<lparr>Ti = 2000, ui = 0, vi = 0, di = 0.4\<rparr>
     \<lparr>Ti = 3000, ui = 0.75, vi = 0, di = 0.85\<rparr> (- 1)
   = (Finite (18500 / 11), Finite (- (131 / 352)))"
  by (simp add: ohno_parabolic_def Let_def np_div_def power2_eq_square)

lemma ohno_parabolic_cases:
  "((Ti n - Ti c) * (Ti p - Ti n) * (Ti c - Ti p) = 0 \<longrightarrow>
      ohno_parabolic p c n sg = (NonFinite, NonFinite))
   \<and> ((Ti n - Ti c) * (Ti p - Ti n) * (Ti c - Ti p) \<noteq> 0 \<longrightarrow>
      (\<exists>a b c0.
         a * Ti p ^ 2 + b * Ti p + c0 = di p
         \<and> a * Ti c ^ 2 + b * Ti c + c0 = di c
         \<and> a * Ti n ^ 2 + b * Ti n + c0 = di n
         \<and> ohno_parabolic p c n sg =
             (if a = 0 then (NonFinite, NonFinite)
              else (Finite (- b / (2 * a)),
                    Finite (sg * (a * (- b / (2 * a)) ^ 2 + b * (- b / (2 * a)) + c0))))))"
proof -
  define X where "X = (Ti n - Ti c) * (Ti p - Ti n) * (Ti c - Ti p)"
  define a where "a = (Ti p * (di n - di c) + Ti c * (di p - di n) + Ti n * (di c - di p)) * (1 / X)"
  define b where "b = - (Ti p ^ 2 * (di n - di c) + Ti c ^ 2 * (di p - di n)
                         + Ti n ^ 2 * (di c - di p)) * (1 / X)"
  define c0 where "c0 = - (di p * (Ti n - Ti c) * Ti c * Ti n + di c * (Ti p - Ti n) * Ti p * Ti n
                          + di n * (Ti c - Ti p) * Ti p * Ti c) * (1 / X)"
  have zero: "ohno_parabolic p c n sg = (NonFinite, NonFinite)" if "X = 0"
  proof -
    from that have "np_div 1 X = NonFinite" by (simp add: np_div_def)
    then show ?thesis
      unfolding ohno_parabolic_def Let_def X_def [symmetric]
      by (simp only: np_float64.case)
  qed
  have nonzero: "ohno_parabolic p c n sg =
             (if a = 0 then (NonFinite, NonFinite)
              else (Finite (- b / (2 * a)),
                    Finite (sg * (a * (- b / (2 * a)) ^ 2 + b * (- b / (2 * a)) + c0))))"
    if X: "X \<noteq> 0"
  proof -
    from X have x: "np_div 1 X = Finite (1 / X)" by (simp add: np_div_def)
    have e: "ohno_parabolic p c n sg =
               (case np_div (- b) (2 * a) of
                  NonFinite \<Rightarrow> (NonFinite, NonFinite)
                | Finite T \<Rightarrow> (Finite T, Finite (sg * (a * T ^ 2 + b * T + c0))))"
      unfolding ohno_parabolic_def Let_def X_def [symmetric] a_def b_def c0_def x
      by (simp only: np_float64.case)
    show ?thesis
      unfolding e by (simp add: np_div_def)
  qed
  have fit: "a * t ^ 2 + b * t + c0 = d"
    if X: "X \<noteq> 0"
      and num: "(Ti p * (di n - di c) + Ti c * (di p - di n) + Ti n * (di c - di p)) * t ^ 2
                - (Ti p ^ 2 * (di n - di c) + Ti c ^ 2 * (di p - di n)
                   + Ti n ^ 2 * (di c - di p)) * t
                - (di p * (Ti n - Ti c) * Ti c * Ti n + di c * (Ti p - Ti n) * Ti p * Ti n
                   + di n * (Ti c - Ti p) * Ti p * Ti c) = d * X"
    for t d
  proof -
    have "(a * t ^ 2 + b * t + c0) * X = d * X"
      unfolding a_def b_def c0_def using X num by (simp add: algebra_simps)
    then show ?thesis using X by simp
  qed
  have f1: "a * Ti p ^ 2 + b * Ti p + c0 = di p" if "X \<noteq> 0"
    using that by (rule fit) (unfold X_def, algebra)
  have f2: "a * Ti c ^ 2 + b * Ti c + c0 = di c" if "X \<noteq> 0"
    using that by (rule fit) (unfold X_def, algebra)
  have f3: "a * Ti n ^ 2 + b * Ti n + c0 = di n" if "X \<noteq> 0"
    using that by (rule fit) (unfold X_def, algebra)
  show ?thesis
    unfolding X_def [symmetric] using zero nonzero f1 f2 f3 by blast
qed

lemma example_cascade:
  "ohno_cascade (0, - 0.4) example_observer 3 (nat (if (1::int) \<le> 0 then 1 else 1))
     (1000, 3000, [], 0, []) =
     Inr (1000, 3000,
          [\<lparr>Ti = 1000, ui = - 0.3, vi = 0, di = 0.5\<rparr>, \<lparr>Ti = 2000, ui = 0, vi = 0, di = 0.4\<rparr>,
           \<lparr>Ti = 3000, ui = 0.75, vi = 0, di = 0.85\<rparr>], 1, [])"
proof -
  have "nat (if (1::int) \<le> 0 then 1 else 1) = Suc 0" by simp
  then show ?thesis
    by (simp only: ohno_cascade.simps prod.case example_iteration bind_res_Inr)
qed

lemma example_table_above:
  "get_planckian_table (0, 0.4) example_observer 1000 3000 3 =
     [\<lparr>Ti = 1000, ui = - 0.3, vi = 0, di = 0.5\<rparr>, \<lparr>Ti = 2000, ui = 0, vi = 0, di = 0.4\<rparr>,
      \<lparr>Ti = 3000, ui = 0.75, vi = 0, di = 0.85\<rparr>]"
  unfolding get_planckian_table_def example_linspace
  by (simp add: example_observer_def power2_eq_square sqrt_values)

lemma example_cascade_above:
  "ohno_cascade (0, 0.4) example_observer 3 (nat (if (1::int) \<le> 0 then 1 else 1))
     (1000, 3000, [], 0, []) =
     Inr (1000, 3000,
          [\<lparr>Ti = 1000, ui = - 0.3, vi = 0, di = 0.5\<rparr>, \<lparr>Ti = 2000, ui = 0, vi = 0, di = 0.4\<rparr>,
           \<lparr>Ti = 3000, ui = 0.75, vi = 0, di = 0.85\<rparr>], 1, [])"
proof -
  have n: "nat (if (1::int) \<le> 0 then 1 else 1) = Suc 0" by simp
  have "ohno_iteration (0, 0.4) example_observer 1000 3000 3 [] =
     Inr (1000, 3000,
          [\<lparr>Ti = 1000, ui = - 0.3, vi = 0, di = 0.5\<rparr>, \<lparr>Ti = 2000, ui = 0, vi = 0, di = 0.4\<rparr>,
           \<lparr>Ti = 3000, ui = 0.75, vi = 0, di = 0.85\<rparr>], 1, [])"
    unfolding ohno_iteration_def Let_def example_table_above example_index
    by (simp add: ohno_adjust_index_def py_getitem_def)
  with n show ?thesis
    by (simp only: ohno_cascade.simps prod.case bind_res_Inr)
qed

lemma example_triangular_above:
  "ohno_triangular \<lparr>Ti = 1000, ui = - 0.3, vi = 0, di = 0.5\<rparr>
     \<lparr>Ti = 3000, ui = 0.75, vi = 0, di = 0.85\<rparr> (0, 0.4) = Inr (11000 / 7, 0.4, 1)"
  by (simp add: ohno_triangular_def Let_def py_div_def py_pow_half_def power2_eq_square
      sqrt_values)

lemma linear_table:
  "get_planckian_table (1, 0) linear_observer 1000 3000 3 =
     [\<lparr>Ti = 1000, ui = 0.1, vi = 0, di = 0.9\<rparr>, \<lparr>Ti = 2000, ui = 0.2, vi = 0, di = 0.8\<rparr>,
      \<lparr>Ti = 3000, ui = 0.3, vi = 0, di = 0.7\<rparr>]"
  unfolding get_planckian_table_def example_linspace
  by (simp add: linear_observer_def power2_eq_square sqrt_values)

lemma linear_cascade:
  "ohno_cascade (1, 0) linear_observer 3 (nat (if (1::int) \<le> 0 then 1 else 1))
     (1000, 3000, [], 0, []) =
     Inr (1000, 3000,
          [\<lparr>Ti = 1000, ui = 0.1, vi = 0, di = 0.9\<rparr>, \<lparr>Ti = 2000, ui = 0.2, vi = 0, di = 0.8\<rparr>,
           \<lparr>Ti = 3000, ui = 0.3, vi = 0, di = 0.7\<rparr>], 1, [warning_highest])"
proof -
  have n: "nat (if (1::int) \<le> 0 then 1 else 1) = Suc 0" by simp
  have "ohno_iteration (1, 0) linear_observer 1000 3000 3 [] =
     Inr (1000, 3000,
          [\<lparr>Ti = 1000, ui = 0.1, vi = 0, di = 0.9\<rparr>, \<lparr>Ti = 2000, ui = 0.2, vi = 0, di = 0.8\<rparr>,
           \<lparr>Ti = 3000, ui = 0.3, vi = 0, di = 0.7\<rparr>], 1, [warning_highest])"
    unfolding ohno_iteration_def Let_def linear_table
    by (simp add: get_planckian_table_minimal_distance_index_def ohno_adjust_index_def
        py_getitem_def)
  with n show ?thesis
    by (simp only: ohno_cascade.simps prod.case bind_res_Inr)
qed

lemma linear_triple:
  "ohno_triple
     [\<lparr>Ti = 1000, ui = 0.1, vi = 0, di = 0.9\<rparr>, \<lparr>Ti = 2000, ui = 0.2, vi = 0, di = 0.8\<rparr>,
      \<lparr>Ti = 3000, ui = 0.3, vi = 0, di = 0.7\<rparr>] 1
   = Inr (\<lparr>Ti = 1000, ui = 0.1, vi = 0, di = 0.9\<rparr>, \<lparr>Ti = 2000, ui = 0.2, vi = 0, di = 0.8\<rparr>,
          \<lparr>Ti = 3000, ui = 0.3, vi = 0, di = 0.7\<rparr>)"
  by (simp add: ohno_triple_def py_getitem_def)

lemma linear_triangular:
  "ohno_triangular \<lparr>Ti = 1000, ui = 0.1, vi = 0, di = 0.9\<rparr>
     \<lparr>Ti = 3000, ui = 0.3, vi = 0, di = 0.7\<rparr> (1, 0) = Inr (10000, 0, 1)"
  by (simp add: ohno_triangular_def Let_def py_div_def py_pow_half_def power2_eq_square
      sqrt_values)

lemma linear_parabolic:
  "ohno_parabolic \<lparr>Ti = 1000, ui = 0.1, vi = 0, di = 0.9\<rparr>
     \<lparr>Ti = 2000, ui = 0.2, vi = 0, di = 0.8\<rparr>
     \<lparr>Ti = 3000, ui = 0.3, vi = 0, di = 0.7\<rparr> 1 = (NonFinite, NonFinite)"
  by (simp add: ohno_parabolic_def Let_def np_div_def power2_eq_square)

text \<open>
  Claim C2, as the code has it. In \<open>uv_to_CCT_ohno2013\<close> the parabolic solution
  replaces the triangular one exactly when the signed triangular \<open>Duv\<close> is below 0.002,
  so for every negative \<open>Duv\<close> whatever its magnitude; otherwise the triangular pair is
  returned unchanged. With three distinct temperatures the parabolic solution is the
  vertex \<open>T = - b / (2 a)\<close> of the quadratic through the three \<open>(Ti, di)\<close> points, with
  \<open>Duv = sign (a T\<^sup>2 + b T + c)\<close>. Where the temperatures are not distinct or \<open>a\<close> is
  zero, the divisions give no exception: both results are infinities or nan.
\<close>

theorem ohno2013_parabolic_test:
  assumes "ohno_cascade uv cmfs count (nat (if iterations \<le> 0 then 1 else iterations))
             (start, end', [], 0, []) = Inr (s, e, planckian_table, index, ws)"
    and "ohno_triple planckian_table index = Inr (Tuvdip, Tuvdi, Tuvdin)"
    and "ohno_triangular Tuvdip Tuvdin uv = Inr (T, Duv, sg)"
  shows "uv_to_CCT_ohno2013 uv cmfs start end' count iterations
           = Inr (if Duv < 0.002 then ohno_parabolic Tuvdip Tuvdi Tuvdin sg
                  else (Finite T, Finite Duv))
         \<and> ((Ti Tuvdin - Ti Tuvdi) * (Ti Tuvdip - Ti Tuvdin) * (Ti Tuvdi - Ti Tuvdip) = 0 \<longrightarrow>
              ohno_parabolic Tuvdip Tuvdi Tuvdin sg = (NonFinite, NonFinite))
         \<and> ((Ti Tuvdin - Ti Tuvdi) * (Ti Tuvdip - Ti Tuvdin) * (Ti Tuvdi - Ti Tuvdip) \<noteq> 0 \<longrightarrow>
              (\<exists>a b c.
                 a * Ti Tuvdip ^ 2 + b * Ti Tuvdip + c = di Tuvdip
                 \<and> a * Ti Tuvdi ^ 2 + b * Ti Tuvdi + c = di Tuvdi
                 \<and> a * Ti Tuvdin ^ 2 + b * Ti Tuvdin + c = di Tuvdin
                 \<and> ohno_parabolic Tuvdip Tuvdi Tuvdin sg =
                     (if a = 0 then (NonFinite, NonFinite)
                      else (Finite (- b / (2 * a)),
                            Finite (sg * (a * (- b / (2 * a)) ^ 2 + b * (- b / (2 * a)) + c))))))"
proof -
  have "ohno_run uv cmfs start end' count iterations
          = bind_res (ohno_solution Tuvdip Tuvdi Tuvdin uv) (\<lambda>r. Inr (r, ws))"
    using assms(1,2) by (simp add: ohno_run_def)
  moreover have "ohno_solution Tuvdip Tuvdi Tuvdin uv
          = Inr (if Duv < 0.002 then ohno_parabolic Tuvdip Tuvdi Tuvdin sg
                 else (Finite T, Finite Duv))"
    using assms(3) by (simp add: ohno_solution_def)
  ultimately have "uv_to_CCT_ohno2013 uv cmfs start end' count iterations
           = Inr (if Duv < 0.002 then ohno_parabolic Tuvdip Tuvdi Tuvdin sg
                  else (Finite T, Finite Duv))"
    by (simp add: uv_to_CCT_ohno2013_def)
  then show ?thesis
    using ohno_parabolic_cases [of Tuvdin Tuvdi Tuvdip sg] by (rule conjI)
qed

theorem ohno2013_parabolic_test_witness:
  "uv_to_CCT_ohno2013 (0, 0.4) example_observer 1000 3000 3 1
     = Inr (Finite (11000 / 7), Finite 0.4)
   \<and> uv_to_CCT_ohno2013 (0, - 0.4) example_observer 1000 3000 3 1
       = Inr (Finite (18500 / 11), Finite (- (131 / 352)))
   \<and> uv_to_CCT_ohno2013 (1, 0) linear_observer 1000 3000 3 1 = Inr (NonFinite, NonFinite)"
proof -
  have above: "\<not> (0.4 :: real) < 0.002" by simp
  have below: "(- 0.4 :: real) < 0.002" by simp
  have zero: "(0 :: real) < 0.002" by simp
  have a: "uv_to_CCT_ohno2013 (0, 0.4) example_observer 1000 3000 3 1
             = Inr (Finite (11000 / 7), Finite 0.4)"
    using ohno2013_parabolic_test
      [OF example_cascade_above example_triple example_triangular_above, THEN conjunct1]
    by (simp only: above if_False)
  have b: "uv_to_CCT_ohno2013 (0, - 0.4) example_observer 1000 3000 3 1
             = Inr (Finite (18500 / 11), Finite (- (131 / 352)))"
    using ohno2013_parabolic_test
      [OF example_cascade example_triple example_triangular, THEN conjunct1]
    by (simp only: below if_True example_parabolic)
  have c: "uv_to_CCT_ohno2013 (1, 0) linear_observer 1000 3000 3 1 = Inr (NonFinite, NonFinite)"
    using ohno2013_parabolic_test
      [OF linear_cascade linear_triple linear_triangular, THEN conjunct1]
    by (simp only: zero if_True linear_parabolic)
  from a b c show ?thesis by (intro conjI)
qed

lemma example_call:
  "uv_to_CCT_ohno2013 (0, - 0.4) example_observer 1000 3000 3 1
     = Inr (Finite (18500 / 11), Finite (- (131 / 352)))"
proof -
  have below: "(- 0.4 :: real) < 0.002" by simp
  show ?thesis
    unfolding uv_to_CCT_ohno2013_def ohno_run_def Let_def example_cascade
    by (simp only: bind_res_Inr prod.case example_triple ohno_solution_def example_triangular
        below if_True example_parabolic)
qed

text \<open>
  A point below the locus with a triangular \<open>Duv\<close> of \<open>-0.4\<close>: its magnitude is not
  below 0.002, and the call returns the parabolic pair, not the triangular one.
\<close>

theorem ohno2013_parabolic_test_counterexample:
  "ohno_cascade (0, - 0.4) example_observer 3 (nat (if (1::int) \<le> 0 then 1 else 1))
     (1000, 3000, [], 0, []) =
     Inr (1000, 3000,
          [\<lparr>Ti = 1000, ui = - 0.3, vi = 0, di = 0.5\<rparr>, \<lparr>Ti = 2000, ui = 0, vi = 0, di = 0.4\<rparr>,
           \<lparr>Ti = 3000, ui = 0.75, vi = 0, di = 0.85\<rparr>], 1, [])
   \<and> ohno_triangular \<lparr>Ti = 1000, ui = - 0.3, vi = 0, di = 0.5\<rparr>
       \<lparr>Ti = 3000, ui = 0.75, vi = 0, di = 0.85\<rparr> (0, - 0.4) = Inr (11000 / 7, - 0.4, - 1)
   \<and> 0.002 \<le> \<bar>- 0.4 :: real\<bar>
   \<and> uv_to_CCT_ohno2013 (0, - 0.4) example_observer 1000 3000 3 1
       = Inr (Finite (18500 / 11), Finite (- (131 / 352)))
   \<and> (Finite (18500 / 11), Finite (- (131 / 352))) \<noteq> (Finite (11000 / 7), Finite (- 0.4))"
proof (intro conjI)
  show "0.002 \<le> \<bar>- 0.4 :: real\<bar>" by simp
  show "(Finite (18500 / 11), Finite (- (131 / 352))) \<noteq> (Finite (11000 / 7), Finite (- 0.4))"
    by simp
qed (rule example_cascade example_triangular example_call)+

text \<open>
  Claim C5, as the code has it. For every sample count of at least 3, a pass of
  \<open>uv_to_CCT_ohno2013\<close> finds the minimal distance index; on the first entry it warns
  and moves the index to 1, on the last entry it warns and moves it to \<open>count - 2\<close>, and
  otherwise keeps it. The positions \<open>index - 1\<close>, \<open>index\<close> and \<open>index + 1\<close> then lie
  inside the table, none negative, so the narrowing of the interval and the final triple
  read three distinct entries and the call never ends in an \<open>IndexError\<close>.
\<close>

theorem ohno2013_neighbours_in_range:
  assumes "3 \<le> count"
  shows "(\<exists>m idx ws'.
     get_planckian_table_minimal_distance_index (get_planckian_table uv cmfs start end' count)
       = Inr m
     \<and> m < count
     \<and> ohno_adjust_index count (int m) ws = (idx, ws')
     \<and> (m = 0 \<longrightarrow> idx = 1 \<and> ws' = ws @ [warning_lowest])
     \<and> (m = count - 1 \<longrightarrow> idx = int count - 2 \<and> ws' = ws @ [warning_highest])
     \<and> (0 < m \<and> m < count - 1 \<longrightarrow> idx = int m \<and> ws' = ws)
     \<and> 1 \<le> idx \<and> idx + 1 < int count
     \<and> ohno_iteration uv cmfs start end' count ws
         = Inr (Ti (get_planckian_table uv cmfs start end' count ! nat (idx - 1)),
                Ti (get_planckian_table uv cmfs start end' count ! nat (idx + 1)),
                get_planckian_table uv cmfs start end' count, idx, ws')
     \<and> ohno_triple (get_planckian_table uv cmfs start end' count) idx
         = Inr (get_planckian_table uv cmfs start end' count ! nat (idx - 1),
                get_planckian_table uv cmfs start end' count ! nat idx,
                get_planckian_table uv cmfs start end' count ! nat (idx + 1)))
   \<and> uv_to_CCT_ohno2013 uv cmfs start end' count iterations \<noteq> Inl IndexError"
  using ohno_iteration_step [OF assms] uv_to_CCT_ohno2013_no_IndexError [OF assms]
  by (rule conjI)

lemma example_table_lowest:
  "get_planckian_table (- 0.3, 0) example_observer 1000 3000 3 =
     [\<lparr>Ti = 1000, ui = - 0.3, vi = 0, di = 0\<rparr>, \<lparr>Ti = 2000, ui = 0, vi = 0, di = 0.3\<rparr>,
      \<lparr>Ti = 3000, ui = 0.75, vi = 0, di = 1.05\<rparr>]"
  unfolding get_planckian_table_def example_linspace
  by (simp add: example_observer_def power2_eq_square sqrt_values)

lemma example_iteration_lowest:
  "ohno_iteration (- 0.3, 0) example_observer 1000 3000 3 [] =
     Inr (1000, 3000,
          [\<lparr>Ti = 1000, ui = - 0.3, vi = 0, di = 0\<rparr>, \<lparr>Ti = 2000, ui = 0, vi = 0, di = 0.3\<rparr>,
           \<lparr>Ti = 3000, ui = 0.75, vi = 0, di = 1.05\<rparr>], 1, [warning_lowest])"
  unfolding ohno_iteration_def Let_def example_table_lowest
  by (simp add: get_planckian_table_minimal_distance_index_def ohno_adjust_index_def
      py_getitem_def)

theorem ohno2013_neighbours_in_range_witness:
  "(3::nat) \<le> 3
   \<and> ohno_iteration (- 0.3, 0) example_observer 1000 3000 3 [] =
     Inr (1000, 3000,
          [\<lparr>Ti = 1000, ui = - 0.3, vi = 0, di = 0\<rparr>, \<lparr>Ti = 2000, ui = 0, vi = 0, di = 0.3\<rparr>,
           \<lparr>Ti = 3000, ui = 0.75, vi = 0, di = 1.05\<rparr>], 1, [warning_lowest])
   \<and> uv_to_CCT_ohno2013 (- 0.3, 0) example_observer 1000 3000 3 1 \<noteq> Inl IndexError"
proof -
  have c: "(3::nat) \<le> 3" by simp
  have "uv_to_CCT_ohno2013 (- 0.3, 0) example_observer 1000 3000 3 1 \<noteq> Inl IndexError"
    using ohno2013_neighbours_in_range [OF c, THEN conjunct2] .
  with c example_iteration_lowest show ?thesis by (intro conjI)
qed

lemma example_linspace_two: "linspace 1000 3000 2 = [1000, 3000]"
  by (simp add: linspace_def upt_conv_Cons numeral_2_eq_2)

lemma example_table_two:
  "get_planckian_table (0, - 0.4) example_observer 1000 3000 2 =
     [\<lparr>Ti = 1000, ui = - 0.3, vi = 0, di = 0.5\<rparr>, \<lparr>Ti = 3000, ui = 0.75, vi = 0, di = 0.85\<rparr>]"
  unfolding get_planckian_table_def example_linspace_two
  by (simp add: example_observer_def power2_eq_square sqrt_values)

lemma example_table_two_highest:
  "get_planckian_table (0.75, 0) example_observer 1000 3000 2 =
     [\<lparr>Ti = 1000, ui = - 0.3, vi = 0, di = 1.05\<rparr>, \<lparr>Ti = 3000, ui = 0.75, vi = 0, di = 0\<rparr>]"
  unfolding get_planckian_table_def example_linspace_two
  by (simp add: example_observer_def power2_eq_square sqrt_values)

lemma example_iteration_two:
  "ohno_iteration (0, - 0.4) example_observer 1000 3000 2 [] = Inl IndexError"
  unfolding ohno_iteration_def Let_def example_table_two
  by (simp add: get_planckian_table_minimal_distance_index_def ohno_adjust_index_def
      py_getitem_def)

text \<open>
  With two samples the policy fails: from the first entry the index moves to 1 and
  \<open>index + 1\<close> is outside the table; from the last entry it moves to 0 and \<open>index - 1\<close>
  is \<open>-1\<close>, which Python reads from the end of the table.
\<close>

theorem ohno2013_neighbours_counterexample:
  "(2::nat) \<le> 2
   \<and> get_planckian_table_minimal_distance_index
       (get_planckian_table (0, - 0.4) example_observer 1000 3000 2) = Inr 0
   \<and> ohno_adjust_index 2 0 [] = (1, [warning_lowest])
   \<and> py_getitem (get_planckian_table (0, - 0.4) example_observer 1000 3000 2) (1 + 1)
       = Inl IndexError
   \<and> ohno_iteration (0, - 0.4) example_observer 1000 3000 2 [] = Inl IndexError
   \<and> uv_to_CCT_ohno2013 (0, - 0.4) example_observer 1000 3000 2 1 = Inl IndexError
   \<and> get_planckian_table_minimal_distance_index
       (get_planckian_table (0.75, 0) example_observer 1000 3000 2) = Inr 1
   \<and> ohno_adjust_index 2 1 [] = (0, [warning_highest])
   \<and> py_getitem (get_planckian_table (0.75, 0) example_observer 1000 3000 2) (0 - 1)
       = Inr (get_planckian_table (0.75, 0) example_observer 1000 3000 2 ! 1)"
proof (intro conjI)
  show "(2::nat) \<le> 2" by simp
  show "get_planckian_table_minimal_distance_index
       (get_planckian_table (0, - 0.4) example_observer 1000 3000 2) = Inr 0"
    unfolding example_table_two by (simp add: get_planckian_table_minimal_distance_index_def)
  show "ohno_adjust_index 2 0 [] = (1, [warning_lowest])"
    by (simp add: ohno_adjust_index_def)
  show "py_getitem (get_planckian_table (0, - 0.4) example_observer 1000 3000 2) (1 + 1)
       = Inl IndexError"
    unfolding example_table_two by (simp add: py_getitem_def)
  show "ohno_iteration (0, - 0.4) example_observer 1000 3000 2 [] = Inl IndexError"
    by (rule example_iteration_two)
  have "nat (if (1::int) \<le> 0 then 1 else 1) = Suc 0" by simp
  then show "uv_to_CCT_ohno2013 (0, - 0.4) example_observer 1000 3000 2 1 = Inl IndexError"
    unfolding uv_to_CCT_ohno2013_def ohno_run_def Let_def
    by (simp only: ohno_cascade.simps prod.case example_iteration_two bind_res_Inl)
  show "get_planckian_table_minimal_distance_index
       (get_planckian_table (0.75, 0) example_observer 1000 3000 2) = Inr 1"
    unfolding example_table_two_highest
    by (simp add: get_planckian_table_minimal_distance_index_def)
  show "ohno_adjust_index 2 1 [] = (0, [warning_highest])"
    by (simp add: ohno_adjust_index_def)
  show "py_getitem (get_planckian_table (0.75, 0) example_observer 1000 3000 2) (0 - 1)
       = Inr (get_planckian_table (0.75, 0) example_observer 1000 3000 2 ! 1)"
    unfolding example_table_two_highest by (simp add: py_getitem_def)
qed

end
